theory Spec2Isabelle
  imports Main
begin

section \<open>JavaScript strings\<close>

text \<open>
  A JavaScript string is a sequence of UTF-16 code units. The heuristics of the SDK look at
  code units beyond Latin-1 (the bullet glyphs U+2022, U+2023, U+25AA, the Unicode spaces
  removed by \<open>trim\<close>), so a code unit is a natural number and a string a list of them.
  \<open>js\<close> reads an ASCII literal.
\<close>

type_synonym jschar = nat
type_synonym jsstring = "jschar list"

definition js :: "string \<Rightarrow> jsstring" where
  "js s = map of_char s"

text \<open>\<open>WhiteSpace\<close> and \<open>LineTerminator\<close> of ECMAScript: what \<open>String.prototype.trim\<close>
  strips and what \<open>\s\<close> matches in a regular expression.\<close>

definition isWhiteSpace :: "jschar \<Rightarrow> bool" where
  "isWhiteSpace c \<longleftrightarrow>
     List.member [9, 10, 11, 12, 13, 32, 160, 5760, 8232, 8233, 8239, 8287, 12288, 65279] c
     \<or> (8192 \<le> c \<and> c \<le> 8202)"

definition trim :: "jsstring \<Rightarrow> jsstring" where
  "trim s = rev (dropWhile isWhiteSpace (rev (dropWhile isWhiteSpace s)))"

definition startsWith :: "jsstring \<Rightarrow> jsstring \<Rightarrow> bool" where
  "startsWith s p \<longleftrightarrow> take (length p) s = p"

definition endsWith :: "jsstring \<Rightarrow> jsstring \<Rightarrow> bool" where
  "endsWith s p \<longleftrightarrow> length p \<le> length s \<and> drop (length s - length p) s = p"

text \<open>\<open>s.replace(/c/g, r)\<close> for a pattern that is one literal character.\<close>

definition replaceAll :: "jschar \<Rightarrow> jsstring \<Rightarrow> jsstring \<Rightarrow> jsstring" where
  "replaceAll c r s = concat (map (\<lambda>x. if x = c then r else [x]) s)"

text \<open>\<open>s.split(d)\<close> for a separator of one character: the empty string splits into
  one empty piece.\<close>

fun splitOn :: "jschar \<Rightarrow> jsstring \<Rightarrow> jsstring list" where
  "splitOn d [] = [[]]"
| "splitOn d (c # cs) =
     (if c = d then [] # splitOn d cs
      else (case splitOn d cs of [] \<Rightarrow> [[c]] | l # ls \<Rightarrow> (c # l) # ls))"

fun joinWith :: "jsstring \<Rightarrow> jsstring list \<Rightarrow> jsstring" where
  "joinWith sep [] = []"
| "joinWith sep [x] = x"
| "joinWith sep (x # y # ys) = x @ sep @ joinWith sep (y # ys)"

section \<open>Markdown renderer: front matter\<close>

text \<open>
  A metadata value as \<open>generateFrontmatter\<close> distinguishes it: \<open>undefined\<close> or \<open>null\<close>
  (skipped), an array, another object, or a scalar. Every value reaches the output through
  \<open>String(...)\<close>, so the model carries that string.
\<close>

datatype metaValue =
    Nullish
  | Sequence "jsstring list"
  | Nested "(jsstring \<times> jsstring) list"
  | Scalar jsstring

text \<open>The character class \<open>[:#\[\]{}|>&*!?,]\<close> of \<open>escapeYamlValue\<close>.\<close>

definition yamlSpecial :: "jschar \<Rightarrow> bool" where
  "yamlSpecial c \<longleftrightarrow> List.member (js '':#[]{}|>&*!?,'') c"

definition escapeYamlValue :: "jsstring \<Rightarrow> jsstring" where
  "escapeYamlValue v =
     (if list_ex yamlSpecial v \<or> List.member v 10 \<or> startsWith v (js '' '')
      then js [CHR 0x22] @ replaceAll 34 (js [CHR 0x5C, CHR 0x22]) v @ js [CHR 0x22]
      else v)"

fun entryLines :: "jsstring \<times> metaValue \<Rightarrow> jsstring list" where
  "entryLines (k, Nullish) = []"
| "entryLines (k, Sequence items) =
     (k @ js '':'') # map (\<lambda>item. js ''  - '' @ escapeYamlValue item) items"
| "entryLines (k, Nested kvs) =
     (k @ js '':'') # map (\<lambda>(subKey, subValue). js ''  '' @ subKey @ js '': '' @ escapeYamlValue subValue) kvs"
| "entryLines (k, Scalar v) = [k @ js '': '' @ escapeYamlValue v]"

definition generateFrontmatter :: "(jsstring \<times> metaValue) list \<Rightarrow> jsstring" where
  "generateFrontmatter metadata =
     joinWith [10] ([js ''---''] @ concat (map entryLines metadata) @ [js ''---''])"

text \<open>The quoting rule in the specification's words: the value has a YAML-significant
  character, or a newline, or starts with a space.\<close>

definition yaml_significant :: "jschar set" where
  "yaml_significant = set (js '':#[]{}|>&*!?,'')"

definition needs_quotes :: "jsstring \<Rightarrow> bool" where
  "needs_quotes v \<longleftrightarrow>
     set v \<inter> yaml_significant \<noteq> {} \<or> 10 \<in> set v \<or> (v \<noteq> [] \<and> hd v = 32)"

section \<open>Markup parser: paragraph spacing\<close>

text \<open>
  \<open>ensureParagraphSpacing\<close> is \<open>text.replace(/\n{3,}/g, '\n\n')\<close>. The global replace scans
  from the left: where three or more newlines start, the greedy match takes the whole run
  and two newlines are written for it; any other character is copied.
\<close>

function ensureParagraphSpacing :: "jsstring \<Rightarrow> jsstring" where
  "ensureParagraphSpacing [] = []"
| "ensureParagraphSpacing (c # cs) =
     (if c = 10 \<and> 3 \<le> length (takeWhile (\<lambda>x. x = 10) (c # cs))
      then [10, 10] @ ensureParagraphSpacing (dropWhile (\<lambda>x. x = 10) cs)
      else c # ensureParagraphSpacing cs)"
  by pat_completeness auto
termination
  by (relation "measure length") (auto simp: less_Suc_eq_le length_dropWhile_le)

text \<open>
  For the specification: a text cut into its maximal blocks, each a run of newlines or a
  run of other characters, and what the step does to one block.
\<close>

function nl_blocks :: "jsstring \<Rightarrow> jsstring list" where
  "nl_blocks [] = []"
| "nl_blocks (c # cs) =
     (if c = 10
      then (c # takeWhile (\<lambda>x. x = 10) cs) # nl_blocks (dropWhile (\<lambda>x. x = 10) cs)
      else (c # takeWhile (\<lambda>x. x \<noteq> 10) cs) # nl_blocks (dropWhile (\<lambda>x. x \<noteq> 10) cs))"
  by pat_completeness auto
termination
  by (relation "measure length") (auto simp: less_Suc_eq_le length_dropWhile_le)

definition homogeneous :: "jsstring \<Rightarrow> bool" where
  "homogeneous b \<longleftrightarrow> b \<noteq> [] \<and> (list_all (\<lambda>x. x = 10) b \<or> list_all (\<lambda>x. x \<noteq> 10) b)"

fun alternating :: "jsstring list \<Rightarrow> bool" where
  "alternating [] = True"
| "alternating [b] = homogeneous b"
| "alternating (b # b' # bs) =
     (homogeneous b \<and> (hd b = 10) \<noteq> (hd b' = 10) \<and> alternating (b' # bs))"

definition collapse_block :: "jsstring \<Rightarrow> jsstring" where
  "collapse_block b = (if startsWith b [10] \<and> 3 \<le> length b then [10, 10] else b)"

text \<open>The lengths of the maximal runs of empty lines among the lines of a text.\<close>

fun blank_runs_from :: "nat \<Rightarrow> jsstring list \<Rightarrow> nat list" where
  "blank_runs_from n [] = (if n = 0 then [] else [n])"
| "blank_runs_from n (l # ls) =
     (if l = [] then blank_runs_from (Suc n) ls
      else (if n = 0 then [] else [n]) @ blank_runs_from 0 ls)"

definition blank_runs :: "jsstring \<Rightarrow> nat list" where
  "blank_runs t = blank_runs_from 0 (splitOn 10 t)"

section \<open>Document tree\<close>

text \<open>
  The \<open>mdast\<close> tree, a tagged union. \<open>Other\<close> stands for every node type the SDK does not
  name (raw \<open>html\<close>, tables, definitions, ...): its type name, its \<open>value\<close> and its
  \<open>children\<close>, each of the last two present or not.
\<close>

datatype node =
    Root "node list"
  | Heading nat "node list"
  | Paragraph "node list"
  | ListNode bool "node list"
  | ListItem "node list"
  | Code jsstring "jsstring option"
  | Blockquote "node list"
  | ThematicBreak
  | Text jsstring
  | Strong "node list"
  | Emphasis "node list"
  | InlineCode jsstring
  | Link jsstring "node list"
  | Image jsstring jsstring
  | Break
  | Other jsstring "jsstring option" "node list option"

section \<open>Lossy-text reconstructors\<close>

text \<open>
  \<open>String.prototype.toUpperCase\<close> and \<open>toLowerCase\<close> follow the Unicode case mappings of
  the platform. The reconstructors take them as parameters; \<open>asciiPlatform\<close> is their
  restriction to ASCII letters, which is what they do on ASCII text.
\<close>

record platform =
  toUpperCase :: "jsstring \<Rightarrow> jsstring"
  toLowerCase :: "jsstring \<Rightarrow> jsstring"

definition isDigit :: "jschar \<Rightarrow> bool" where
  "isDigit c \<longleftrightarrow> 48 \<le> c \<and> c \<le> 57"

definition isAsciiUpper :: "jschar \<Rightarrow> bool" where
  "isAsciiUpper c \<longleftrightarrow> 65 \<le> c \<and> c \<le> 90"

definition isAsciiLower :: "jschar \<Rightarrow> bool" where
  "isAsciiLower c \<longleftrightarrow> 97 \<le> c \<and> c \<le> 122"

definition isAsciiLetter :: "jschar \<Rightarrow> bool" where
  "isAsciiLetter c \<longleftrightarrow> isAsciiUpper c \<or> isAsciiLower c"

definition asciiPlatform :: platform where
  "asciiPlatform =
     \<lparr> toUpperCase = map (\<lambda>c. if isAsciiLower c then c - 32 else c),
       toLowerCase = map (\<lambda>c. if isAsciiUpper c then c + 32 else c) \<rparr>"

text \<open>\<open>/[.!?,;:]$/\<close>: the line ends in terminal punctuation.\<close>

definition endsWithPunctuation :: "jsstring \<Rightarrow> bool" where
  "endsWithPunctuation line \<longleftrightarrow> line \<noteq> [] \<and> List.member (js ''.!?,;:'') (last line)"

text \<open>
  The tail \<open>[.)]\s+\<close> of a numbered marker; the result is what follows the match. The
  greedy \<open>\s+\<close> is the last item of each pattern, so the match takes all the white space.
\<close>

definition afterMarker :: "jsstring \<Rightarrow> jsstring option" where
  "afterMarker r =
     (case r of
        c # w # r' \<Rightarrow>
          if (c = 46 \<or> c = 41) \<and> isWhiteSpace w then Some (dropWhile isWhiteSpace r') else None
      | _ \<Rightarrow> None)"

text \<open>\<open>/^[\s]*[...]\s+/\<close> for a class of bullet glyphs: what follows the match, if any.\<close>

definition matchBullet :: "(jschar \<Rightarrow> bool) \<Rightarrow> jsstring \<Rightarrow> jsstring option" where
  "matchBullet isBullet s =
     (case dropWhile isWhiteSpace s of
        c # w # r \<Rightarrow>
          if isBullet c \<and> isWhiteSpace w then Some (dropWhile isWhiteSpace r) else None
      | _ \<Rightarrow> None)"

text \<open>An alternation: the first alternative that matches.\<close>

definition orElse :: "'a option \<Rightarrow> 'a option \<Rightarrow> 'a option" where
  "orElse a b = (case a of Some x \<Rightarrow> Some x | None \<Rightarrow> b)"

subsection \<open>Print-document reconstructor (\<open>parsers/pdf.ts\<close>)\<close>

text \<open>The class \<open>[-*\<bullet>\<cdot>\<dots>]\<close> of \<open>isListItem\<close>: hyphen, asterisk, U+2022, U+00B7, U+2023,
  U+25AA.\<close>

definition isBullet_pdf :: "jschar \<Rightarrow> bool" where
  "isBullet_pdf c \<longleftrightarrow> List.member [45, 42, 8226, 183, 8227, 9642] c"

definition isIVX :: "jschar \<Rightarrow> bool" where
  "isIVX c \<longleftrightarrow> List.member (js ''ivxIVX'') c"

text \<open>
  \<open>/^[\s]*(\d+|[a-z]|[ivx]+)[.)]\s+/i\<close>. Each alternative is followed by \<open>[.)]\<close>, which is
  none of its own characters, so only its longest match can go on. Without the \<open>u\<close> flag
  the \<open>i\<close> flag folds no character outside ASCII onto an ASCII letter.
\<close>

definition matchNumbered_pdf :: "jsstring \<Rightarrow> jsstring option" where
  "matchNumbered_pdf s =
     (let t = dropWhile isWhiteSpace s in
      orElse (if takeWhile isDigit t \<noteq> [] then afterMarker (dropWhile isDigit t) else None)
     (orElse (case t of c # r \<Rightarrow> if isAsciiLetter c then afterMarker r else None | [] \<Rightarrow> None)
             (if takeWhile isIVX t \<noteq> [] then afterMarker (dropWhile isIVX t) else None)))"

definition isListItem_pdf :: "jsstring \<Rightarrow> bool" where
  "isListItem_pdf line \<longleftrightarrow>
     matchBullet isBullet_pdf line \<noteq> None \<or> matchNumbered_pdf line \<noteq> None"

text \<open>\<open>text.split(/\s+/)\<close>.\<close>

function splitWhiteSpace :: "jsstring \<Rightarrow> jsstring list" where
  "splitWhiteSpace [] = [[]]"
| "splitWhiteSpace (c # cs) =
     (if isWhiteSpace c then [] # splitWhiteSpace (dropWhile isWhiteSpace cs)
      else (case splitWhiteSpace cs of [] \<Rightarrow> [[c]] | w # ws \<Rightarrow> (c # w) # ws))"
  by pat_completeness auto
termination
  by (relation "measure length") (auto simp: less_Suc_eq_le length_dropWhile_le)

definition stopWords :: "jsstring list" where
  "stopWords = map js [''a'', ''an'', ''the'', ''and'', ''or'', ''but'', ''in'', ''on'', ''at'',
     ''to'', ''for'', ''of'']"

definition isTitleCase :: "platform \<Rightarrow> jsstring \<Rightarrow> bool" where
  "isTitleCase pf t =
     (let ws = splitWhiteSpace t in
      if length ws < 2 then False
      else list_all (\<lambda>w. w \<noteq> [] \<and> isAsciiUpper (hd w))
             (filter (\<lambda>w. \<not> List.member stopWords (toLowerCase pf w)) ws))"

text \<open>
  \<open>/^(\d+)(\.\d+)*/\<close>: the groups \<open>.digits\<close> after the leading number, counted, and what
  follows them.
\<close>

function dotGroups :: "jsstring \<Rightarrow> nat \<times> jsstring" where
  "dotGroups s =
     (case s of
        c # d # r \<Rightarrow>
          if c = 46 \<and> isDigit d
          then (case dotGroups (dropWhile isDigit r) of (n, t) \<Rightarrow> (Suc n, t))
          else (0, s)
      | _ \<Rightarrow> (0, s))"
  by pat_completeness auto
termination
  by (relation "measure length") (auto simp: less_Suc_eq_le intro: le_trans [OF length_dropWhile_le])

definition sectionPrefix :: "jsstring \<Rightarrow> (nat \<times> jsstring) option" where
  "sectionPrefix line =
     (if takeWhile isDigit line \<noteq> [] then Some (dotGroups (dropWhile isDigit line)) else None)"

text \<open>\<open>/^\d+(\.\d+)*\s+[A-Z]/\<close>.\<close>

definition isNumberedSection :: "jsstring \<Rightarrow> bool" where
  "isNumberedSection line =
     (case sectionPrefix line of
        None \<Rightarrow> False
      | Some (n, t) \<Rightarrow>
          (case t of
             [] \<Rightarrow> False
           | w # r \<Rightarrow> isWhiteSpace w \<and>
               (case dropWhile isWhiteSpace r of [] \<Rightarrow> False | u # r' \<Rightarrow> isAsciiUpper u)))"

definition isLikelyHeading_pdf :: "platform \<Rightarrow> jsstring \<Rightarrow> jsstring \<Rightarrow> bool \<Rightarrow> bool" where
  "isLikelyHeading_pdf pf line nextLine isFirstContent =
     (if isListItem_pdf line then False
      else if line = toUpperCase pf line \<and> length line < 60 \<and> length line > 2 then True
      else if length line < 60 \<and> nextLine = [] \<and> \<not> endsWithPunctuation line
              \<and> (isFirstContent \<or> (isTitleCase pf line \<and> length line < 50)) then True
      else if isNumberedSection line \<and> length line < 80 then True
      else False)"

definition detectHeadingLevel_pdf :: "platform \<Rightarrow> jsstring \<Rightarrow> nat" where
  "detectHeadingLevel_pdf pf line =
     (if line = toUpperCase pf line then 1
      else (case sectionPrefix line of
              Some (dots, t) \<Rightarrow> min (dots + 1) 6
            | None \<Rightarrow>
                if length line < 25 then 1
                else if length line < 40 then 2
                else if length line < 60 then 3
                else 4))"

definition createHeading :: "jsstring \<Rightarrow> nat \<Rightarrow> node" where
  "createHeading t depth = Heading depth [Text t]"

definition createParagraph :: "jsstring \<Rightarrow> node" where
  "createParagraph t = Paragraph [Text t]"

text \<open>\<open>/^[\s]*(\d+|[a-z])[.)]/\<close>, without the \<open>i\<close> flag, on \<open>items[0] || ''\<close>.\<close>

definition isOrderedMarker_pdf :: "jsstring \<Rightarrow> bool" where
  "isOrderedMarker_pdf s =
     (let t = dropWhile isWhiteSpace s;
          sep = (\<lambda>r. case r of [] \<Rightarrow> False | c # r' \<Rightarrow> c = 46 \<or> c = 41) in
      (takeWhile isDigit t \<noteq> [] \<and> sep (dropWhile isDigit t))
      \<or> (case t of [] \<Rightarrow> False | c # r \<Rightarrow> isAsciiLower c \<and> sep r))"

definition cleanText_pdf :: "jsstring \<Rightarrow> jsstring" where
  "cleanText_pdf item =
     (let a = (case matchBullet isBullet_pdf item of Some r \<Rightarrow> r | None \<Rightarrow> item)
      in (case matchNumbered_pdf a of Some r \<Rightarrow> r | None \<Rightarrow> a))"

definition createList_pdf :: "jsstring list \<Rightarrow> node" where
  "createList_pdf items =
     ListNode (isOrderedMarker_pdf (case items of [] \<Rightarrow> [] | x # xs \<Rightarrow> x))
       (map (\<lambda>item. ListItem [createParagraph (cleanText_pdf item)]) items)"

text \<open>The variables of the loop of \<open>parseExtractedText\<close>.\<close>

record scanState =
  children :: "node list"
  currentParagraphLines :: "jsstring list"
  inList :: bool
  listItems :: "jsstring list"

definition flushParagraph :: "scanState \<Rightarrow> scanState" where
  "flushParagraph st =
     (if currentParagraphLines st \<noteq> []
      then st\<lparr> children := children st @ [createParagraph (joinWith [32] (currentParagraphLines st))],
               currentParagraphLines := [] \<rparr>
      else st)"

definition flushList :: "scanState \<Rightarrow> scanState" where
  "flushList st =
     (if inList st \<and> listItems st \<noteq> []
      then st\<lparr> children := children st @ [createList_pdf (listItems st)],
               listItems := [], inList := False \<rparr>
      else st)"

text \<open>One turn of the loop, on the trimmed line and the trimmed next line (\<open>''\<close> after the
  last line).\<close>

definition scanLine :: "platform \<Rightarrow> jsstring \<Rightarrow> jsstring \<Rightarrow> scanState \<Rightarrow> scanState" where
  "scanLine pf trimmedLine nextLine st =
     (if trimmedLine = [] then flushList (flushParagraph st)
      else if isListItem_pdf trimmedLine
      then (let st1 = flushParagraph st
            in st1\<lparr> inList := True, listItems := listItems st1 @ [trimmedLine] \<rparr>)
      else (let st1 = flushList st in
            if isLikelyHeading_pdf pf trimmedLine nextLine (currentParagraphLines st1 = [])
            then (let st2 = flushParagraph st1
                  in st2\<lparr> children := children st2 @
                       [createHeading trimmedLine (detectHeadingLevel_pdf pf trimmedLine)] \<rparr>)
            else st1\<lparr> currentParagraphLines := currentParagraphLines st1 @ [trimmedLine] \<rparr>))"

fun scanLines :: "platform \<Rightarrow> scanState \<Rightarrow> jsstring list \<Rightarrow> scanState" where
  "scanLines pf st [] = st"
| "scanLines pf st (line # rest) =
     scanLines pf
       (scanLine pf (trim line) (case rest of [] \<Rightarrow> [] | n # ns \<Rightarrow> trim n) st) rest"

text \<open>After the loop: the remaining paragraph, then the remaining list items.\<close>

definition finishScan :: "scanState \<Rightarrow> node" where
  "finishScan st =
     Root (children st
       @ (if currentParagraphLines st \<noteq> []
          then [createParagraph (joinWith [32] (currentParagraphLines st))] else [])
       @ (if listItems st \<noteq> [] then [createList_pdf (listItems st)] else []))"

definition initialScan :: scanState where
  "initialScan = \<lparr> children = [], currentParagraphLines = [], inList = False, listItems = [] \<rparr>"

definition parseExtractedText :: "platform \<Rightarrow> jsstring \<Rightarrow> node" where
  "parseExtractedText pf t = finishScan (scanLines pf initialScan (splitOn 10 t))"

subsection \<open>Packaged-document raw-text path (\<open>parsers/docx.ts\<close>)\<close>

text \<open>The class \<open>[-\<bullet>\<cdot>*]\<close>: hyphen, U+2022, U+00B7, asterisk.\<close>

definition isBullet_docx :: "jschar \<Rightarrow> bool" where
  "isBullet_docx c \<longleftrightarrow> List.member [45, 8226, 183, 42] c"

text \<open>\<open>/^[\s]*\d+[.)]\s+/\<close>.\<close>

definition matchNumbered_docx :: "jsstring \<Rightarrow> jsstring option" where
  "matchNumbered_docx s =
     (let t = dropWhile isWhiteSpace s in
      if takeWhile isDigit t \<noteq> [] then afterMarker (dropWhile isDigit t) else None)"

definition isListItem_docx :: "jsstring \<Rightarrow> bool" where
  "isListItem_docx line \<longleftrightarrow>
     matchBullet isBullet_docx line \<noteq> None \<or> matchNumbered_docx line \<noteq> None"

definition isLikelyHeading_docx :: "platform \<Rightarrow> jsstring \<Rightarrow> bool \<Rightarrow> bool" where
  "isLikelyHeading_docx pf line isFirstContent =
     (if length line < 80 \<and> \<not> endsWithPunctuation line \<and> \<not> isListItem_docx line
         \<and> (isFirstContent \<or> line = toUpperCase pf line \<or> (line \<noteq> [] \<and> isAsciiUpper (hd line)))
      then isFirstContent \<and> length line < 60
      else False)"

definition detectHeadingLevel_docx :: "platform \<Rightarrow> jsstring \<Rightarrow> nat" where
  "detectHeadingLevel_docx pf line =
     (if line = toUpperCase pf line \<and> length line < 40 then 1
      else if length line < 30 then 1
      else if length line < 50 then 2
      else 3)"

text \<open>\<open>/^[\s]*\d+[.)]/\<close> on \<open>items[0] || ''\<close>.\<close>

definition isOrderedMarker_docx :: "jsstring \<Rightarrow> bool" where
  "isOrderedMarker_docx s =
     (let t = dropWhile isWhiteSpace s in
      takeWhile isDigit t \<noteq> [] \<and>
      (case dropWhile isDigit t of [] \<Rightarrow> False | c # r \<Rightarrow> c = 46 \<or> c = 41))"

definition cleanText_docx :: "jsstring \<Rightarrow> jsstring" where
  "cleanText_docx item =
     (let a = (case matchBullet isBullet_docx item of Some r \<Rightarrow> r | None \<Rightarrow> item)
      in (case matchNumbered_docx a of Some r \<Rightarrow> r | None \<Rightarrow> a))"

definition createList_docx :: "jsstring list \<Rightarrow> node" where
  "createList_docx items =
     ListNode (isOrderedMarker_docx (case items of [] \<Rightarrow> [] | x # xs \<Rightarrow> x))
       (map (\<lambda>item. ListItem [createParagraph (cleanText_docx item)]) items)"

text \<open>The variables of the loop of \<open>parseRawText\<close>: the children and the paragraph buffer.\<close>

definition flushParagraph_docx :: "node list \<times> jsstring list \<Rightarrow> node list \<times> jsstring list" where
  "flushParagraph_docx st =
     (case st of (ch, buf) \<Rightarrow>
        if buf \<noteq> [] then (ch @ [createParagraph (joinWith [32] buf)], []) else (ch, buf))"

definition rawLine :: "platform \<Rightarrow> jsstring \<Rightarrow> node list \<times> jsstring list \<Rightarrow> node list \<times> jsstring list" where
  "rawLine pf trimmedLine st =
     (if trimmedLine = [] then flushParagraph_docx st
      else if isLikelyHeading_docx pf trimmedLine (snd st = [])
      then (case flushParagraph_docx st of (ch, buf) \<Rightarrow>
              (ch @ [createHeading trimmedLine (detectHeadingLevel_docx pf trimmedLine)], buf))
      else if isListItem_docx trimmedLine
      then (case flushParagraph_docx st of (ch, buf) \<Rightarrow>
              (ch @ [createList_docx [trimmedLine]], buf))
      else (fst st, snd st @ [trimmedLine]))"

fun rawLines :: "platform \<Rightarrow> node list \<times> jsstring list \<Rightarrow> jsstring list \<Rightarrow> node list \<times> jsstring list" where
  "rawLines pf st [] = st"
| "rawLines pf st (line # rest) = rawLines pf (rawLine pf (trim line) st) rest"

definition parseRawText :: "platform \<Rightarrow> jsstring \<Rightarrow> node" where
  "parseRawText pf t =
     (if t = [] then Root []
      else Root (fst (flushParagraph_docx (rawLines pf ([], []) (splitOn 10 t)))))"

subsection \<open>Section numbers, for the specification\<close>

text \<open>
  A section number is a number, or a number, a dot and a section number (\<open>1\<close>, \<open>2.10\<close>,
  \<open>1.2.3\<close>). A text continues a section number when it starts with a digit or with a dot
  and a digit. The dot count of a section number is the number of its dots.
\<close>

function is_section_number :: "jsstring \<Rightarrow> bool" where
  "is_section_number p =
     (takeWhile isDigit p \<noteq> [] \<and>
      (case dropWhile isDigit p of [] \<Rightarrow> True | c # q \<Rightarrow> c = 46 \<and> is_section_number q))"
  by pat_completeness auto
termination
proof (relation "measure length")
  fix p :: jsstring and c q
  assume "dropWhile isDigit p = c # q"
  then have "length q < length (dropWhile isDigit p)" by simp
  also have "\<dots> \<le> length p" by (rule length_dropWhile_le)
  finally show "(q, p) \<in> measure length" by simp
qed simp

definition continues_number :: "jsstring \<Rightarrow> bool" where
  "continues_number t =
     (case t of [] \<Rightarrow> False
      | c # r \<Rightarrow> isDigit c \<or> (c = 46 \<and> (case r of [] \<Rightarrow> False | d # r' \<Rightarrow> isDigit d)))"

definition dot_count :: "jsstring \<Rightarrow> nat" where
  "dot_count p = length (filter (\<lambda>c. c = 46) p)"

section \<open>Format detection (\<open>core/engine.ts\<close>)\<close>

datatype InputFormat = Fmt_text | Fmt_md | Fmt_docx | Fmt_pdf | Fmt_html

text \<open>The input of a conversion: a string, or a \<open>Buffer\<close> of bytes.\<close>

type_synonym byte = nat

datatype input = Str jsstring | Buf "byte list"

definition toLowerAscii :: "jschar \<Rightarrow> jschar" where
  "toLowerAscii c = (if isAsciiUpper c then c + 32 else c)"

definition isAlnum :: "jschar \<Rightarrow> bool" where
  "isAlnum c \<longleftrightarrow> isAsciiLetter c \<or> isDigit c"

text \<open>
  \<open>/^<([a-z][a-z0-9]*)\b[^>]*>/i\<close> on the trimmed text: the tag name \<open>match[1]\<close> and the
  whole match \<open>match[0]\<close>. After the longest name the word boundary \<open>\b\<close> holds unless an
  underscore follows (inside the name it never holds, so giving characters back does not
  help); \<open>[^>]*\<close> then runs to the first \<open>>\<close>.
\<close>

definition matchOpeningTag :: "jsstring \<Rightarrow> (jsstring \<times> jsstring) option" where
  "matchOpeningTag s =
     (case s of
        lt # c # r \<Rightarrow>
          if lt = 60 \<and> isAsciiLetter c then
            (let name = c # takeWhile isAlnum r; rest = dropWhile isAlnum r in
             if rest \<noteq> [] \<and> hd rest \<noteq> 95 \<and> List.member rest 62
             then Some (name, [60] @ name @ takeWhile (\<lambda>x. x \<noteq> 62) rest @ [62])
             else None)
          else None
      | _ \<Rightarrow> None)"

text \<open>
  \<open>new RegExp(pattern, 'i').test(s)\<close> for a pattern of literal ASCII characters given in
  lower case: the pattern occurs somewhere in \<open>s\<close>, ASCII letters compared without case.
\<close>

definition testIgnoreCase :: "jsstring \<Rightarrow> jsstring \<Rightarrow> bool" where
  "testIgnoreCase pat s \<longleftrightarrow>
     list_ex (\<lambda>i. map toLowerAscii (take (length pat) (drop i s)) = pat) [0..<Suc (length s)]"

definition voidElements :: "jsstring list" where
  "voidElements = map js [''br'', ''hr'', ''img'', ''input'', ''meta'', ''link'']"

definition detectStringFormat :: "jsstring \<Rightarrow> InputFormat" where
  "detectStringFormat str =
     (let trimmed = trim str in
      if startsWith trimmed (js ''<!DOCTYPE'') \<or> startsWith trimmed (js ''<!doctype'') then Fmt_html
      else if startsWith trimmed (js ''<html'') \<or> startsWith trimmed (js ''<HTML'') then Fmt_html
      else if startsWith trimmed (js ''<'') \<and> \<not> startsWith trimmed (js ''<!['') then
        (case matchOpeningTag trimmed of
           Some (name, whole) \<Rightarrow>
             (let tagName = map toLowerAscii name;
                  hasClosingTag = testIgnoreCase (js ''</'' @ tagName @ js ''>'') trimmed;
                  isSelfClosing = endsWith whole (js ''/>'');
                  isVoidElement = List.member voidElements tagName
              in if hasClosingTag \<or> isSelfClosing \<or> isVoidElement then Fmt_html else Fmt_md)
         | None \<Rightarrow> Fmt_md)
      else Fmt_md)"

text \<open>
  \<open>detectInputFormat\<close>. \<open>toString('ascii')\<close> clears the high bit of each byte.
  \<open>input.toString('utf8')\<close> is the platform's decoder, a parameter here: \<open>None\<close> is a
  decoder that throws, which the \<open>catch\<close> turns into \<open>'md'\<close>. No other statement of the
  function can throw, so the function returns a format for every input.
\<close>

definition detectInputFormat :: "(byte list \<Rightarrow> jsstring option) \<Rightarrow> input \<Rightarrow> InputFormat" where
  "detectInputFormat toStringUtf8 inp =
     (case inp of
        Buf b \<Rightarrow>
          if length b \<ge> 4 \<and> take 4 b = [80, 75, 3, 4] then Fmt_docx
          else if length b \<ge> 5 \<and> map (\<lambda>x. x mod 128) (take 5 b) = js ''%PDF-'' then Fmt_pdf
          else (case toStringUtf8 b of Some s \<Rightarrow> detectStringFormat s | None \<Rightarrow> Fmt_md)
      | Str s \<Rightarrow> detectStringFormat s)"

text \<open>A decoder for the examples: it agrees with UTF-8 decoding on ASCII bytes, and writes
  U+FFFD for every other byte.\<close>

definition sampleDecoder :: "byte list \<Rightarrow> jsstring option" where
  "sampleDecoder b = Some (map (\<lambda>x. if x < 128 then x else 65533) b)"

section \<open>Conversion orchestrator (\<open>core/engine.ts\<close>)\<close>

text \<open>
  A value thrown by library code inside a \<open>try\<close> block: an \<open>Error\<close> object with its
  message, or any other value (\<open>error instanceof Error\<close> is false for it).
\<close>

datatype thrown = ErrorObject jsstring | NonError

text \<open>
  What a call of the SDK can raise: the error classes of \<open>utils/errors.ts\<close> with their
  fields (\<open>ValidationError\<close>: message and field; \<open>FormatError\<close>: the invalid format;
  \<open>ParseError\<close>: message and cause; \<open>ConversionError\<close>: message, format and cause;
  \<open>TemplateError\<close>: message and template id), and \<open>Uncaught\<close> for an exception of the
  platform that no \<open>try\<close> block of the SDK catches.
\<close>

datatype failure =
    ValidationError jsstring jsstring
  | FormatError jsstring
  | ParseError jsstring "thrown option"
  | ConversionError jsstring jsstring "thrown option"
  | TemplateError jsstring "jsstring option"
  | Uncaught

datatype artifact = StringOutput jsstring | BufferOutput "byte list"

datatype event = ParserCalled jsstring | RendererCalled jsstring

text \<open>The arguments of \<open>convert\<close> as a caller can pass them at run time.\<close>

datatype inputArg = InputMissing | InputOther | Input input

datatype metadataArg = MetadataUndefined | MetadataNotObject | Metadata "(jsstring \<times> metaValue) list"

record convertOptions =
  format :: "jsstring list option"
  inputFormat :: "jsstring option"
  templateId :: "jsstring option"
  metadata :: metadataArg

record template =
  templateType :: jsstring
  templateContent :: jsstring

record renderOptions =
  renderMetadata :: metadataArg
  renderTemplate :: "template option"

record convertResult =
  md :: "artifact option"
  html :: "artifact option"
  pdf :: "artifact option"
  docx :: "artifact option"

text \<open>
  What the orchestrator calls and this development does not look into: the platform's UTF-8
  decoder, the four parsers, the template registry and the default template file, the
  statements inside the \<open>try\<close> block of each renderer (they call the rendering libraries),
  and the order in which the concurrent conversions settle: \<open>firstRejected\<close> picks, among
  the rejections, the one \<open>Promise.all\<close> sees first.
\<close>

record collaborators =
  toStringUtf8 :: "byte list \<Rightarrow> jsstring option"
  parseMarkdown :: "jsstring \<Rightarrow> failure + node"
  parseHtml :: "jsstring \<Rightarrow> failure + node"
  parseDocx :: "byte list \<Rightarrow> failure + node"
  parsePdf :: "byte list \<Rightarrow> failure + node"
  templateRegistry :: "jsstring \<Rightarrow> template option"
  loadDefaultHtmlTemplate :: "template option"
  markdownBody :: "node \<Rightarrow> renderOptions \<Rightarrow> thrown + jsstring"
  htmlBody :: "node \<Rightarrow> renderOptions \<Rightarrow> thrown + jsstring"
  pdfBody :: "node \<Rightarrow> renderOptions \<Rightarrow> thrown + byte list"
  docxBody :: "node \<Rightarrow> renderOptions \<Rightarrow> thrown + byte list"
  firstRejected :: "failure list \<Rightarrow> nat"

definition VALID_FORMATS :: "jsstring list" where
  "VALID_FORMATS = map js [''md'', ''pdf'', ''docx'', ''html'']"

definition VALID_INPUT_FORMATS :: "jsstring list" where
  "VALID_INPUT_FORMATS = map js [''text'', ''md'', ''docx'', ''pdf'', ''html'']"

text \<open>
  \<open>validateInput\<close>: the checks in their order, each raising at the first violation. When
  all pass the input is a string or a Buffer, the options are present and the formats are a
  non-empty array, and these are returned.
\<close>

definition validateInput ::
  "inputArg \<Rightarrow> convertOptions option \<Rightarrow> failure + (input \<times> convertOptions \<times> jsstring list)" where
  "validateInput arg options =
     (case arg of
        InputMissing \<Rightarrow> Inl (ValidationError (js ''Input is required'') (js ''input''))
      | InputOther \<Rightarrow> Inl (ValidationError (js ''Input must be a string or Buffer'') (js ''input''))
      | Input inp \<Rightarrow>
          (case options of
             None \<Rightarrow> Inl (ValidationError (js ''Options are required'') (js ''options''))
           | Some opts \<Rightarrow>
               (case format opts of
                  None \<Rightarrow> Inl (ValidationError (js ''Format must be an array of output formats'') (js ''format''))
                | Some fmts \<Rightarrow>
                    if fmts = [] then
                      Inl (ValidationError (js ''At least one output format is required'') (js ''format''))
                    else (case find (\<lambda>f. \<not> List.member VALID_FORMATS f) fmts of
                            Some f \<Rightarrow> Inl (FormatError f)
                          | None \<Rightarrow>
                              (case inputFormat opts of
                                 Some f \<Rightarrow>
                                   if \<not> List.member VALID_INPUT_FORMATS f then
                                     Inl (ValidationError
                                       (js ''Invalid input format: '' @ f @ js ''. Valid formats: ''
                                          @ joinWith (js '', '') VALID_INPUT_FORMATS)
                                       (js ''inputFormat''))
                                   else if metadata opts = MetadataNotObject then
                                     Inl (ValidationError (js ''Metadata must be an object'') (js ''metadata''))
                                   else Inr (inp, opts, fmts)
                               | None \<Rightarrow>
                                   if metadata opts = MetadataNotObject then
                                     Inl (ValidationError (js ''Metadata must be an object'') (js ''metadata''))
                                   else Inr (inp, opts, fmts))))))"

definition formatName :: "InputFormat \<Rightarrow> jsstring" where
  "formatName f =
     (case f of Fmt_text \<Rightarrow> js ''text'' | Fmt_md \<Rightarrow> js ''md'' | Fmt_docx \<Rightarrow> js ''docx''
      | Fmt_pdf \<Rightarrow> js ''pdf'' | Fmt_html \<Rightarrow> js ''html'')"

text \<open>\<open>options.inputFormat || detectInputFormat(input)\<close>: the empty string is falsy.\<close>

definition resolveInputFormat :: "collaborators \<Rightarrow> input \<Rightarrow> convertOptions \<Rightarrow> jsstring" where
  "resolveInputFormat env inp opts =
     (case inputFormat opts of
        Some f \<Rightarrow> if f \<noteq> [] then f else formatName (detectInputFormat (toStringUtf8 env) inp)
      | None \<Rightarrow> formatName (detectInputFormat (toStringUtf8 env) inp))"

text \<open>\<open>parseInput\<close>, with the parser calls it makes. The decoding of a Buffer for the html
  and markdown parsers is outside every \<open>try\<close>.\<close>

definition parseInput :: "collaborators \<Rightarrow> input \<Rightarrow> jsstring \<Rightarrow> (failure + node) \<times> event list" where
  "parseInput env inp fmt =
     (if fmt = js ''docx'' then
        (case inp of
           Str s \<Rightarrow> (Inl (ValidationError (js ''DOCX input must be a Buffer'') (js ''input'')), [])
         | Buf b \<Rightarrow> (parseDocx env b, [ParserCalled (js ''docx'')]))
      else if fmt = js ''pdf'' then
        (case inp of
           Str s \<Rightarrow> (Inl (ValidationError (js ''PDF input must be a Buffer'') (js ''input'')), [])
         | Buf b \<Rightarrow> (parsePdf env b, [ParserCalled (js ''pdf'')]))
      else if fmt = js ''html'' then
        (case inp of
           Buf b \<Rightarrow>
             (case toStringUtf8 env b of
                None \<Rightarrow> (Inl Uncaught, [])
              | Some s \<Rightarrow> (parseHtml env s, [ParserCalled (js ''html'')]))
         | Str s \<Rightarrow> (parseHtml env s, [ParserCalled (js ''html'')]))
      else
        (case inp of
           Buf b \<Rightarrow>
             (case toStringUtf8 env b of
                None \<Rightarrow> (Inl Uncaught, [])
              | Some s \<Rightarrow> (parseMarkdown env s, [ParserCalled (js ''md'')]))
         | Str s \<Rightarrow> (parseMarkdown env s, [ParserCalled (js ''md'')])))"

text \<open>
  The \<open>catch\<close> of every renderer: \<open>new ConversionError(`Failed to render X: ${error
  instanceof Error ? error.message : 'Unknown error'}`, format, error instanceof Error ?
  error : undefined)\<close>.
\<close>

definition conversionError :: "jsstring \<Rightarrow> jsstring \<Rightarrow> thrown \<Rightarrow> failure" where
  "conversionError label fmt t =
     ConversionError
       (label @ (case t of ErrorObject m \<Rightarrow> m | NonError \<Rightarrow> js ''Unknown error''))
       fmt
       (case t of ErrorObject m \<Rightarrow> Some t | NonError \<Rightarrow> None)"

definition renderMarkdown :: "collaborators \<Rightarrow> node \<Rightarrow> renderOptions \<Rightarrow> failure + jsstring" where
  "renderMarkdown env ast ro =
     (case markdownBody env ast ro of
        Inl t \<Rightarrow> Inl (conversionError (js ''Failed to render Markdown: '') (js ''md'') t)
      | Inr out \<Rightarrow> Inr out)"

definition renderHtml :: "collaborators \<Rightarrow> node \<Rightarrow> renderOptions \<Rightarrow> failure + jsstring" where
  "renderHtml env ast ro =
     (case htmlBody env ast ro of
        Inl t \<Rightarrow> Inl (conversionError (js ''Failed to render HTML: '') (js ''html'') t)
      | Inr out \<Rightarrow> Inr out)"

definition renderPdf :: "collaborators \<Rightarrow> node \<Rightarrow> renderOptions \<Rightarrow> failure + byte list" where
  "renderPdf env ast ro =
     (case pdfBody env ast ro of
        Inl t \<Rightarrow> Inl (conversionError (js ''Failed to render PDF: '') (js ''pdf'') t)
      | Inr out \<Rightarrow> Inr out)"

definition renderDocx :: "collaborators \<Rightarrow> node \<Rightarrow> renderOptions \<Rightarrow> failure + byte list" where
  "renderDocx env ast ro =
     (case docxBody env ast ro of
        Inl t \<Rightarrow> Inl (conversionError (js ''Failed to render DOCX: '') (js ''docx'') t)
      | Inr out \<Rightarrow> Inr out)"

definition getTemplateForRendering ::
  "collaborators \<Rightarrow> jsstring option \<Rightarrow> jsstring \<Rightarrow> failure + template option" where
  "getTemplateForRendering env tid ty =
     (case (case tid of Some i \<Rightarrow> if i \<noteq> [] then Some i else None | None \<Rightarrow> None) of
        Some i \<Rightarrow>
          (case templateRegistry env i of
             None \<Rightarrow> Inl (TemplateError (js ''Template not found: '' @ i) (Some i))
           | Some t \<Rightarrow>
               if templateType t \<noteq> ty then
                 Inl (TemplateError
                   (js ''Template type mismatch: expected '' @ ty @ js '', got '' @ templateType t) (Some i))
               else Inr (Some t))
      | None \<Rightarrow> if ty = js ''html'' then Inr (loadDefaultHtmlTemplate env) else Inr None)"

text \<open>\<open>convertToFormat\<close>, with the renderer call it makes (none when the template is not
  resolved).\<close>

definition convertToFormat ::
  "collaborators \<Rightarrow> node \<Rightarrow> jsstring \<Rightarrow> convertOptions \<Rightarrow> (failure + artifact) \<times> event list" where
  "convertToFormat env ast fmt opts =
     (let ro = \<lparr> renderMetadata = metadata opts, renderTemplate = None \<rparr> in
      if fmt = js ''md'' then
        (map_sum id StringOutput (renderMarkdown env ast ro), [RendererCalled fmt])
      else if fmt = js ''html'' then
        (case getTemplateForRendering env (templateId opts) (js ''html'') of
           Inl e \<Rightarrow> (Inl e, [])
         | Inr tpl \<Rightarrow>
             (map_sum id StringOutput (renderHtml env ast (ro\<lparr> renderTemplate := tpl \<rparr>)),
              [RendererCalled fmt]))
      else if fmt = js ''pdf'' then
        (case getTemplateForRendering env (templateId opts) (js ''pdf'') of
           Inl e \<Rightarrow> (Inl e, [])
         | Inr tpl \<Rightarrow>
             (map_sum id BufferOutput (renderPdf env ast (ro\<lparr> renderTemplate := tpl \<rparr>)),
              [RendererCalled fmt]))
      else if fmt = js ''docx'' then
        (case getTemplateForRendering env (templateId opts) (js ''docx'') of
           Inl e \<Rightarrow> (Inl e, [])
         | Inr tpl \<Rightarrow>
             (map_sum id BufferOutput (renderDocx env ast (ro\<lparr> renderTemplate := tpl \<rparr>)),
              [RendererCalled fmt]))
      else (Inl (FormatError fmt), []))"

text \<open>The \<open>then\<close> handler of one conversion: it sets the key of its format.\<close>

definition setResult :: "jsstring \<Rightarrow> artifact \<Rightarrow> convertResult \<Rightarrow> convertResult" where
  "setResult fmt out res =
     (if fmt = js ''md'' then res\<lparr> md := Some out \<rparr>
      else if fmt = js ''html'' then res\<lparr> html := Some out \<rparr>
      else if fmt = js ''pdf'' then res\<lparr> pdf := Some out \<rparr>
      else if fmt = js ''docx'' then res\<lparr> docx := Some out \<rparr>
      else res)"

definition emptyResult :: convertResult where
  "emptyResult = \<lparr> md = None, html = None, pdf = None, docx = None \<rparr>"

text \<open>The rejections among the conversions, in the order of the requested formats.\<close>

definition rejections :: "(jsstring \<times> (failure + artifact) \<times> event list) list \<Rightarrow> failure list" where
  "rejections cs = List.map_filter (\<lambda>(f, r, ev). case r of Inl e \<Rightarrow> Some e | Inr out \<Rightarrow> None) cs"

definition fulfilled :: "(jsstring \<times> (failure + artifact) \<times> event list) list \<Rightarrow> convertResult" where
  "fulfilled cs =
     foldl (\<lambda>res (f, r, ev). case r of Inl e \<Rightarrow> res | Inr out \<Rightarrow> setResult f out res) emptyResult cs"

text \<open>
  \<open>convert\<close>: validation, format resolution, parsing, then one conversion per requested
  format, all started before \<open>Promise.all\<close> is awaited. \<open>Promise.all\<close> rejects with the
  first rejection; when there is none the result map is returned. The second component
  lists the parser and renderer calls made.
\<close>

definition convert ::
  "collaborators \<Rightarrow> inputArg \<Rightarrow> convertOptions option \<Rightarrow> (failure + convertResult) \<times> event list" where
  "convert env arg options =
     (case validateInput arg options of
        Inl e \<Rightarrow> (Inl e, [])
      | Inr (inp, opts, fmts) \<Rightarrow>
          (case parseInput env inp (resolveInputFormat env inp opts) of
             (Inl e, ev) \<Rightarrow> (Inl e, ev)
           | (Inr ast, ev) \<Rightarrow>
               (let cs = map (\<lambda>f. (f, convertToFormat env ast f opts)) fmts;
                    rs = rejections cs;
                    evs = ev @ concat (map (\<lambda>(f, r, ev'). ev') cs)
                in if rs = [] then (Inr (fulfilled cs), evs)
                   else (Inl (rs ! (firstRejected env rs mod length rs)), evs))))"

text \<open>\<open>String.prototype.includes\<close>.\<close>

definition includesString :: "jsstring \<Rightarrow> jsstring \<Rightarrow> bool" where
  "includesString s sub \<longleftrightarrow>
     list_ex (\<lambda>i. take (length sub) (drop i s) = sub) [0..<Suc (length s)]"

text \<open>
  Collaborators for the examples: a decoder as above, parsers that return the empty tree,
  renderer bodies that return an empty artifact, no registered template, and the rejection
  of the first requested format seen first.
\<close>

definition sampleCollaborators :: collaborators where
  "sampleCollaborators =
     \<lparr> toStringUtf8 = sampleDecoder,
       parseMarkdown = (\<lambda>s. Inr (Root [])),
       parseHtml = (\<lambda>s. Inr (Root [])),
       parseDocx = (\<lambda>b. Inr (Root [])),
       parsePdf = (\<lambda>b. Inr (Root [])),
       templateRegistry = (\<lambda>i. None),
       loadDefaultHtmlTemplate = None,
       markdownBody = (\<lambda>ast ro. Inr []),
       htmlBody = (\<lambda>ast ro. Inr []),
       pdfBody = (\<lambda>ast ro. Inr []),
       docxBody = (\<lambda>ast ro. Inr []),
       firstRejected = (\<lambda>rs. 0) \<rparr>"

section \<open>HTML renderer (\<open>renderers/html.ts\<close>)\<close>

text \<open>\<open>escapeHtml\<close>: five global replacements, the ampersand first.\<close>

definition escapeHtml :: "jsstring \<Rightarrow> jsstring" where
  "escapeHtml t =
     replaceAll 39 (js ''&#039;'')
       (replaceAll 34 (js ''&quot;'')
         (replaceAll 62 (js ''&gt;'')
           (replaceAll 60 (js ''&lt;'')
             (replaceAll 38 (js ''&amp;'') t))))"

text \<open>
  \<open>extractText\<close> reads \<open>value\<close> and \<open>children\<close> off any node: a non-empty \<open>value\<close> wins,
  else the texts of the children are joined, else the text is empty. Of the named node
  types \<open>code\<close>, \<open>text\<close> and \<open>inlineCode\<close> have a value and no children; \<open>image\<close>,
  \<open>break\<close> and \<open>thematicBreak\<close> have neither.
\<close>

fun extractText :: "node \<Rightarrow> jsstring" where
  "extractText (Root cs) = concat (map extractText cs)"
| "extractText (Heading d cs) = concat (map extractText cs)"
| "extractText (Paragraph cs) = concat (map extractText cs)"
| "extractText (ListNode b cs) = concat (map extractText cs)"
| "extractText (ListItem cs) = concat (map extractText cs)"
| "extractText (Code v l) = v"
| "extractText (Blockquote cs) = concat (map extractText cs)"
| "extractText ThematicBreak = []"
| "extractText (Text v) = v"
| "extractText (Strong cs) = concat (map extractText cs)"
| "extractText (Emphasis cs) = concat (map extractText cs)"
| "extractText (InlineCode v) = v"
| "extractText (Link u cs) = concat (map extractText cs)"
| "extractText (Image u a) = []"
| "extractText Break = []"
| "extractText (Other ty v cs) =
     (case v of
        Some s \<Rightarrow>
          if s \<noteq> [] then s
          else (case cs of Some ns \<Rightarrow> concat (map extractText ns) | None \<Rightarrow> [])
      | None \<Rightarrow> (case cs of Some ns \<Rightarrow> concat (map extractText ns) | None \<Rightarrow> []))"

text \<open>The order in which \<open>visit\<close> of \<open>unist-util-visit\<close> calls the visitor: a node, then
  its children from first to last, each with its own subtree.\<close>

fun visitNodes :: "node \<Rightarrow> node list" where
  "visitNodes (Root cs) = Root cs # concat (map visitNodes cs)"
| "visitNodes (Heading d cs) = Heading d cs # concat (map visitNodes cs)"
| "visitNodes (Paragraph cs) = Paragraph cs # concat (map visitNodes cs)"
| "visitNodes (ListNode b cs) = ListNode b cs # concat (map visitNodes cs)"
| "visitNodes (ListItem cs) = ListItem cs # concat (map visitNodes cs)"
| "visitNodes (Blockquote cs) = Blockquote cs # concat (map visitNodes cs)"
| "visitNodes (Strong cs) = Strong cs # concat (map visitNodes cs)"
| "visitNodes (Emphasis cs) = Emphasis cs # concat (map visitNodes cs)"
| "visitNodes (Link u cs) = Link u cs # concat (map visitNodes cs)"
| "visitNodes (Other ty v (Some cs)) = Other ty v (Some cs) # concat (map visitNodes cs)"
| "visitNodes n = [n]"

text \<open>A number in a template literal: its decimal digits.\<close>

fun showNat :: "nat \<Rightarrow> jsstring" where
  "showNat n = (if n < 10 then [48 + n] else showNat (n div 10) @ [48 + n mod 10])"

declare showNat.simps [simp del]

text \<open>The \<open>class\<close> attribute of a code block: present when \<open>lang\<close> is a non-empty string.\<close>

definition languageClass :: "jsstring option \<Rightarrow> jsstring" where
  "languageClass l =
     (case l of
        Some s \<Rightarrow> if s \<noteq> [] then js '' class='' @ [34] @ js ''language-'' @ s @ [34] else []
      | None \<Rightarrow> [])"

text \<open>The visitor of \<open>astToHtml\<close>: what it pushes for one node, if anything.\<close>

fun nodePart :: "node \<Rightarrow> jsstring option" where
  "nodePart (Heading level cs) =
     Some (js ''<h'' @ showNat level @ js ''>'' @ escapeHtml (extractText (Heading level cs))
           @ js ''</h'' @ showNat level @ js ''>'')"
| "nodePart (Paragraph cs) =
     Some (js ''<p>'' @ escapeHtml (extractText (Paragraph cs)) @ js ''</p>'')"
| "nodePart (ListNode ordered cs) =
     (let tag = (if ordered then js ''ol'' else js ''ul'');
          items = joinWith [10] (map (\<lambda>child. js ''<li>'' @ escapeHtml (extractText child) @ js ''</li>'') cs)
      in Some (js ''<'' @ tag @ js ''>'' @ [10] @ items @ [10] @ js ''</'' @ tag @ js ''>''))"
| "nodePart (Code v l) =
     Some (js ''<pre><code'' @ languageClass l @ js ''>'' @ escapeHtml v @ js ''</code></pre>'')"
| "nodePart (Blockquote cs) =
     Some (js ''<blockquote>'' @ escapeHtml (extractText (Blockquote cs)) @ js ''</blockquote>'')"
| "nodePart ThematicBreak = Some (js ''<hr>'')"
| "nodePart n = None"

text \<open>\<open>s.replace(/^p/, '')\<close> and \<open>s.replace(/p$/, '')\<close> for a literal \<open>p\<close>.\<close>

definition stripPrefix :: "jsstring \<Rightarrow> jsstring \<Rightarrow> jsstring" where
  "stripPrefix p s = (if startsWith s p then drop (length p) s else s)"

definition stripSuffix :: "jsstring \<Rightarrow> jsstring \<Rightarrow> jsstring" where
  "stripSuffix p s = (if endsWith s p then take (length s - length p) s else s)"

text \<open>\<open>renderNode\<close>, the fallback renderer.\<close>

fun renderNode :: "node \<Rightarrow> jsstring" where
  "renderNode (Heading d cs) =
     js ''<h'' @ showNat d @ js ''>'' @ concat (map renderNode cs) @ js ''</h'' @ showNat d @ js ''>''"
| "renderNode (Paragraph cs) = js ''<p>'' @ concat (map renderNode cs) @ js ''</p>''"
| "renderNode (Text v) = escapeHtml v"
| "renderNode (Strong cs) = js ''<strong>'' @ concat (map renderNode cs) @ js ''</strong>''"
| "renderNode (Emphasis cs) = js ''<em>'' @ concat (map renderNode cs) @ js ''</em>''"
| "renderNode (InlineCode v) = js ''<code>'' @ escapeHtml v @ js ''</code>''"
| "renderNode (Code v l) =
     js ''<pre><code'' @ languageClass l @ js ''>'' @ escapeHtml v @ js ''</code></pre>''"
| "renderNode (ListNode ordered cs) =
     (let tag = (if ordered then js ''ol'' else js ''ul'')
      in js ''<'' @ tag @ js ''>'' @ [10] @ joinWith [10] (map renderNode cs) @ [10]
         @ js ''</'' @ tag @ js ''>'')"
| "renderNode (ListItem cs) =
     js ''<li>'' @ stripSuffix (js ''</p>'') (stripPrefix (js ''<p>'') (concat (map renderNode cs)))
       @ js ''</li>''"
| "renderNode (Blockquote cs) =
     js ''<blockquote>'' @ concat (map renderNode cs) @ js ''</blockquote>''"
| "renderNode (Link u cs) =
     js ''<a href='' @ [34] @ escapeHtml u @ [34] @ js ''>'' @ concat (map renderNode cs) @ js ''</a>''"
| "renderNode (Image u a) =
     js ''<img src='' @ [34] @ escapeHtml u @ [34] @ js '' alt='' @ [34] @ escapeHtml a @ [34] @ js ''>''"
| "renderNode ThematicBreak = js ''<hr>''"
| "renderNode Break = js ''<br>''"
| "renderNode (Root cs) = []"
| "renderNode (Other ty v cs) = []"

definition rootChildren :: "node \<Rightarrow> node list" where
  "rootChildren ast = (case ast of Root cs \<Rightarrow> cs | _ \<Rightarrow> [])"

definition renderAstSimple :: "node \<Rightarrow> jsstring" where
  "renderAstSimple ast = joinWith [10] (map renderNode (rootChildren ast))"

text \<open>\<open>astToHtml\<close>, once \<open>unist-util-visit\<close> is imported: the pushed parts joined by
  newlines, or the fallback when nothing was pushed.\<close>

definition astToHtml :: "node \<Rightarrow> jsstring" where
  "astToHtml ast =
     (let htmlParts = List.map_filter nodePart (visitNodes ast)
      in if htmlParts = [] then renderAstSimple ast else joinWith [10] htmlParts)"

subsection \<open>The document template\<close>

text \<open>
  \<open>String.prototype.indexOf\<close>: the position of the first occurrence of \<open>p\<close> in \<open>s\<close>.
\<close>

fun indexOf :: "jsstring \<Rightarrow> jsstring \<Rightarrow> nat option" where
  "indexOf [] p = (if p = [] then Some 0 else None)"
| "indexOf (c # s) p = (if startsWith (c # s) p then Some 0 else map_option Suc (indexOf s p))"

text \<open>
  \<open>GetSubstitution\<close> of ECMAScript for a pattern that is a string, so that there are no
  captures: in the replacement text \<open>$$\<close> stands for \<open>$\<close>, \<open>$&\<close> for the matched text,
  \<open>$`\<close> for the part of the string before the match and \<open>$'\<close> for the part after it;
  every other \<open>$\<close> (also before a digit or \<open><\<close>) stands for itself.
\<close>

fun getSubstitution :: "jsstring \<Rightarrow> jsstring \<Rightarrow> jsstring \<Rightarrow> jsstring \<Rightarrow> jsstring" where
  "getSubstitution matched before after [] = []"
| "getSubstitution matched before after [c] = [c]"
| "getSubstitution matched before after (c # d # r) =
     (if c = 36 \<and> d = 36 then 36 # getSubstitution matched before after r
      else if c = 36 \<and> d = 38 then matched @ getSubstitution matched before after r
      else if c = 36 \<and> d = 96 then before @ getSubstitution matched before after r
      else if c = 36 \<and> d = 39 then after @ getSubstitution matched before after r
      else c # getSubstitution matched before after (d # r))"

text \<open>
  \<open>s.replace(p, r)\<close> for a string \<open>p\<close> and a string \<open>r\<close>: the first occurrence of \<open>p\<close> is
  replaced by the substitution that \<open>r\<close> describes; without an occurrence the string is
  returned as it is.
\<close>

definition replaceString :: "jsstring \<Rightarrow> jsstring \<Rightarrow> jsstring \<Rightarrow> jsstring" where
  "replaceString s p r =
     (case indexOf s p of
        None \<Rightarrow> s
      | Some i \<Rightarrow>
          take i s @ getSubstitution p (take i s) (drop (i + length p) s) r @ drop (i + length p) s)"

text \<open>The default template: the document around the placeholders.\<close>

definition DEFAULT_TEMPLATE :: jsstring where
  "DEFAULT_TEMPLATE =
     joinWith [10]
       [js ''<!DOCTYPE html>'',
        js ''<html lang='' @ [34] @ js ''en'' @ [34] @ js ''>'',
        js ''<head>'',
        js ''  <meta charset='' @ [34] @ js ''UTF-8'' @ [34] @ js ''>'',
        js ''  <meta name='' @ [34] @ js ''viewport'' @ [34] @ js '' content='' @ [34]
          @ js ''width=device-width, initial-scale=1.0'' @ [34] @ js ''>'',
        js ''  {{META}}'',
        js ''  <title>{{TITLE}}</title>'',
        js ''  <style>'',
        js ''    {{STYLES}}'',
        js ''  </style>'',
        js ''</head>'',
        js ''<body>'',
        js ''  <article class='' @ [34] @ js ''markdown-body'' @ [34] @ js ''>'',
        js ''    {{CONTENT}}'',
        js ''  </article>'',
        js ''</body>'',
        js ''</html>'']"

text \<open>The default style sheet.\<close>

definition DEFAULT_STYLES :: jsstring where
  "DEFAULT_STYLES =
     joinWith [10]
       [[],
        js ''  * {'',
        js ''    box-sizing: border-box;'',
        js ''  }'',
        js ''  body {'',
        js ''    font-family: -apple-system, BlinkMacSystemFont,''
          @ js '' 'Segoe UI', Helvetica, Arial, sans-serif;'',
        js ''    font-size: 16px;'',
        js ''    line-height: 1.6;'',
        js ''    color: #24292e;'',
        js ''    background-color: #fff;'',
        js ''    max-width: 800px;'',
        js ''    margin: 0 auto;'',
        js ''    padding: 2rem;'',
        js ''  }'',
        js ''  h1, h2, h3, h4, h5, h6 {'',
        js ''    margin-top: 1.5em;'',
        js ''    margin-bottom: 0.5em;'',
        js ''    font-weight: 600;'',
        js ''    line-height: 1.25;'',
        js ''  }'',
        js '' '' @ js '' '' @ js ''h'' @ js ''1'' @ js '' '' @ js ''{'' @ js '' '' @ js ''f''
          @ js ''o'' @ js ''n'' @ js ''t'' @ js ''-'' @ js ''s'' @ js ''i'' @ js ''z''
          @ js ''e'' @ js '':'' @ js '' '' @ js ''2'' @ js ''e'' @ js ''m''
          @ js ''; border-bottom: 1px solid #eaecef; padding-bottom: 0.3em; }'',
        js '' '' @ js '' '' @ js ''h'' @ js ''2'' @ js '' '' @ js ''{'' @ js '' '' @ js ''f''
          @ js ''o'' @ js ''n'' @ js ''t'' @ js ''-'' @ js ''s'' @ js ''i'' @ js ''z''
          @ js ''e'' @ js '':'' @ js '' '' @ js ''1'' @ js ''.'' @ js ''5'' @ js ''e''
          @ js ''m'' @ js ''; border-bottom: 1px solid #eaecef; padding-bottom: 0.3em; }'',
        js ''  h3 { font-size: 1.25em; }'',
        js ''  h4 { font-size: 1em; }'',
        js ''  h5 { font-size: 0.875em; }'',
        js ''  h6 { font-size: 0.85em; color: #6a737d; }'',
        js ''  p { margin-top: 0; margin-bottom: 1em; }'',
        js ''  a { color: #0366d6; text-decoration: none; }'',
        js ''  a:hover { text-decoration: underline; }'',
        js ''  code {'',
        js ''    font-family: 'SFMono-Regular', Consolas,''
          @ js '' 'Liberation Mono', Menlo, monospace;'',
        js ''    font-size: 85%;'',
        js ''    background-color: rgba(27, 31, 35, 0.05);'',
        js ''    padding: 0.2em 0.4em;'',
        js ''    border-radius: 3px;'',
        js ''  }'',
        js ''  pre {'',
        js ''    font-family: 'SFMono-Regular', Consolas,''
          @ js '' 'Liberation Mono', Menlo, monospace;'',
        js ''    font-size: 85%;'',
        js ''    background-color: #f6f8fa;'',
        js ''    padding: 1em;'',
        js ''    border-radius: 6px;'',
        js ''    overflow: auto;'',
        js ''  }'',
        js ''  pre code {'',
        js ''    background-color: transparent;'',
        js ''    padding: 0;'',
        js ''  }'',
        js ''  blockquote {'',
        js ''    margin: 0;'',
        js ''    padding: 0 1em;'',
        js ''    color: #6a737d;'',
        js ''    border-left: 0.25em solid #dfe2e5;'',
        js ''  }'',
        js ''  ul, ol {'',
        js ''    margin-top: 0;'',
        js ''    margin-bottom: 1em;'',
        js ''    padding-left: 2em;'',
        js ''  }'',
        js ''  li + li {'',
        js ''    margin-top: 0.25em;'',
        js ''  }'',
        js ''  table {'',
        js ''    border-spacing: 0;'',
        js ''    border-collapse: collapse;'',
        js ''    margin-bottom: 1em;'',
        js ''    width: 100%;'',
        js ''  }'',
        js ''  th, td {'',
        js ''    padding: 6px 13px;'',
        js ''    border: 1px solid #dfe2e5;'',
        js ''  }'',
        js ''  th {'',
        js ''    font-weight: 600;'',
        js ''    background-color: #f6f8fa;'',
        js ''  }'',
        js ''  tr:nth-child(2n) {'',
        js ''    background-color: #f6f8fa;'',
        js ''  }'',
        js ''  hr {'',
        js ''    height: 0.25em;'',
        js ''    padding: 0;'',
        js ''    margin: 24px 0;'',
        js ''    background-color: #e1e4e8;'',
        js ''    border: 0;'',
        js ''  }'',
        js ''  img {'',
        js ''    max-width: 100%;'',
        js ''    height: auto;'',
        js ''  }'',
        []]"

text \<open>
  Of the metadata the renderer reads \<open>title\<close>, \<open>author\<close> and \<open>description\<close>, which
  \<open>DocumentMetadata\<close> declares strings, and \<open>keywords\<close>, declared an array of strings. The
  fields are read here at their declared types: \<open>stringField\<close> is the string of a field,
  \<open>arrayField\<close> the items of one; metadata that is \<open>undefined\<close> has no field.
\<close>

definition stringField :: "metadataArg \<Rightarrow> jsstring \<Rightarrow> jsstring option" where
  "stringField m k =
     (case m of
        Metadata kvs \<Rightarrow> (case map_of kvs k of Some (Scalar s) \<Rightarrow> Some s | _ \<Rightarrow> None)
      | _ \<Rightarrow> None)"

definition arrayField :: "metadataArg \<Rightarrow> jsstring \<Rightarrow> jsstring list option" where
  "arrayField m k =
     (case m of
        Metadata kvs \<Rightarrow> (case map_of kvs k of Some (Sequence items) \<Rightarrow> Some items | _ \<Rightarrow> None)
      | _ \<Rightarrow> None)"

text \<open>\<open>generateMetaTags\<close>: one tag for each of author, description and keywords that is
  present and not empty, joined by a newline and two spaces.\<close>

definition metaTag :: "jsstring \<Rightarrow> jsstring \<Rightarrow> jsstring" where
  "metaTag name content =
     js ''<meta name='' @ [34] @ name @ [34] @ js '' content='' @ [34] @ escapeHtml content @ [34]
       @ js ''>''"

definition generateMetaTags :: "metadataArg \<Rightarrow> jsstring" where
  "generateMetaTags m =
     joinWith ([10] @ js ''  '')
       ((case stringField m (js ''author'') of
           Some a \<Rightarrow> if a \<noteq> [] then [metaTag (js ''author'') a] else []
         | None \<Rightarrow> [])
        @ (case stringField m (js ''description'') of
             Some d \<Rightarrow> if d \<noteq> [] then [metaTag (js ''description'') d] else []
           | None \<Rightarrow> [])
        @ (case arrayField m (js ''keywords'') of
             Some ks \<Rightarrow> if ks \<noteq> [] then [metaTag (js ''keywords'') (joinWith (js '', '') ks)] else []
           | None \<Rightarrow> []))"

text \<open>\<open>applyTemplate\<close>: four replacements in this order, each of the first occurrence of
  its placeholder in the result of the one before.\<close>

definition applyTemplate :: "jsstring \<Rightarrow> jsstring \<Rightarrow> metadataArg \<Rightarrow> jsstring" where
  "applyTemplate tpl content m =
     (let result1 = replaceString tpl (js ''{{CONTENT}}'') content;
          title = (case stringField m (js ''title'') of
                     Some t \<Rightarrow> if t \<noteq> [] then t else js ''Document''
                   | None \<Rightarrow> js ''Document'');
          result2 = replaceString result1 (js ''{{TITLE}}'') (escapeHtml title);
          result3 = replaceString result2 (js ''{{STYLES}}'') DEFAULT_STYLES;
          metaTags = generateMetaTags m
      in replaceString result3 (js ''{{META}}'') metaTags)"

text \<open>
  The statements of the \<open>try\<close> block of \<open>renderHtml\<close>: the content from \<open>astToHtml\<close>, the
  template \<open>options.template?.content || DEFAULT_TEMPLATE\<close>, and \<open>applyTemplate\<close>.
  \<open>htmlRenderer\<close> puts them in the place of the renderer body among the collaborators.
\<close>

definition renderHtmlBody :: "node \<Rightarrow> renderOptions \<Rightarrow> thrown + jsstring" where
  "renderHtmlBody ast ro =
     (let htmlContent = astToHtml ast;
          tpl = (case renderTemplate ro of
                   Some t \<Rightarrow> if templateContent t \<noteq> [] then templateContent t else DEFAULT_TEMPLATE
                 | None \<Rightarrow> DEFAULT_TEMPLATE)
      in Inr (applyTemplate tpl htmlContent (renderMetadata ro)))"

definition htmlRenderer :: "collaborators \<Rightarrow> collaborators" where
  "htmlRenderer env = env\<lparr> htmlBody := renderHtmlBody \<rparr>"

section \<open>Deep copy of a tree (\<open>core/ast.ts\<close>)\<close>

text \<open>
  \<open>cloneAst\<close> is \<open>JSON.parse(JSON.stringify(ast))\<close>, so it works on the tree as a
  JavaScript value: an object is the list of its properties in enumeration order, with
  distinct keys. A number is finite (the trees carry integers) or not (\<open>NaN\<close>, an infinity).
\<close>

datatype jsValue =
    JUndefined
  | JNull
  | JBool bool
  | JNumber int
  | JNonFinite
  | JString jsstring
  | JArray "jsValue list"
  | JObject "(jsstring \<times> jsValue) list"

text \<open>A JSON text, as the document it denotes.\<close>

datatype jsonDoc =
    DNull
  | DBool bool
  | DNumber int
  | DString jsstring
  | DArray "jsonDoc list"
  | DObject "(jsstring \<times> jsonDoc) list"

text \<open>
  \<open>JSON.stringify\<close>: \<open>undefined\<close> has no JSON form (the result is \<open>undefined\<close>); in an
  array it is written \<open>null\<close>, in an object its property is left out; a number that is not
  finite is written \<open>null\<close>.
\<close>

fun serializeProperty :: "jsValue \<Rightarrow> jsonDoc option"
  and serializeElements :: "jsValue list \<Rightarrow> jsonDoc list"
  and serializeMembers :: "(jsstring \<times> jsValue) list \<Rightarrow> (jsstring \<times> jsonDoc) list" where
  "serializeProperty JUndefined = None"
| "serializeProperty JNull = Some DNull"
| "serializeProperty (JBool b) = Some (DBool b)"
| "serializeProperty (JNumber n) = Some (DNumber n)"
| "serializeProperty JNonFinite = Some DNull"
| "serializeProperty (JString s) = Some (DString s)"
| "serializeProperty (JArray xs) = Some (DArray (serializeElements xs))"
| "serializeProperty (JObject kvs) = Some (DObject (serializeMembers kvs))"
| "serializeElements [] = []"
| "serializeElements (x # xs) =
     (case serializeProperty x of None \<Rightarrow> DNull | Some d \<Rightarrow> d) # serializeElements xs"
| "serializeMembers [] = []"
| "serializeMembers ((k, v) # kvs) =
     (case serializeProperty v of
        None \<Rightarrow> serializeMembers kvs
      | Some d \<Rightarrow> (k, d) # serializeMembers kvs)"

text \<open>\<open>JSON.parse\<close> builds the value of a document; \<open>undefined\<close> is no JSON text and makes
  it throw a \<open>SyntaxError\<close>, the result \<open>None\<close> here.\<close>

fun reviveDoc :: "jsonDoc \<Rightarrow> jsValue"
  and reviveElements :: "jsonDoc list \<Rightarrow> jsValue list"
  and reviveMembers :: "(jsstring \<times> jsonDoc) list \<Rightarrow> (jsstring \<times> jsValue) list" where
  "reviveDoc DNull = JNull"
| "reviveDoc (DBool b) = JBool b"
| "reviveDoc (DNumber n) = JNumber n"
| "reviveDoc (DString s) = JString s"
| "reviveDoc (DArray ds) = JArray (reviveElements ds)"
| "reviveDoc (DObject kvs) = JObject (reviveMembers kvs)"
| "reviveElements [] = []"
| "reviveElements (d # ds) = reviveDoc d # reviveElements ds"
| "reviveMembers [] = []"
| "reviveMembers ((k, d) # kvs) = (k, reviveDoc d) # reviveMembers kvs"

definition cloneAst :: "jsValue \<Rightarrow> jsValue option" where
  "cloneAst ast = map_option reviveDoc (serializeProperty ast)"

text \<open>
  The document tree as the JavaScript value the parsers build: each node an object with
  its \<open>type\<close>, its attributes and its \<open>children\<close>, in that order. An attribute that is
  absent (or \<open>undefined\<close>) is no property; a code block without language has \<open>lang: null\<close>,
  as \<open>createCodeBlock\<close> writes it.
\<close>

fun toJs :: "node \<Rightarrow> jsValue" where
  "toJs (Root cs) = JObject [(js ''type'', JString (js ''root'')), (js ''children'', JArray (map toJs cs))]"
| "toJs (Heading d cs) =
     JObject [(js ''type'', JString (js ''heading'')), (js ''depth'', JNumber (int d)),
              (js ''children'', JArray (map toJs cs))]"
| "toJs (Paragraph cs) =
     JObject [(js ''type'', JString (js ''paragraph'')), (js ''children'', JArray (map toJs cs))]"
| "toJs (ListNode b cs) =
     JObject [(js ''type'', JString (js ''list'')), (js ''ordered'', JBool b),
              (js ''spread'', JBool False), (js ''children'', JArray (map toJs cs))]"
| "toJs (ListItem cs) =
     JObject [(js ''type'', JString (js ''listItem'')), (js ''spread'', JBool False),
              (js ''children'', JArray (map toJs cs))]"
| "toJs (Code v l) =
     JObject [(js ''type'', JString (js ''code'')),
              (js ''lang'', (case l of Some s \<Rightarrow> JString s | None \<Rightarrow> JNull)),
              (js ''meta'', JNull), (js ''value'', JString v)]"
| "toJs (Blockquote cs) =
     JObject [(js ''type'', JString (js ''blockquote'')), (js ''children'', JArray (map toJs cs))]"
| "toJs ThematicBreak = JObject [(js ''type'', JString (js ''thematicBreak''))]"
| "toJs (Text v) = JObject [(js ''type'', JString (js ''text'')), (js ''value'', JString v)]"
| "toJs (Strong cs) =
     JObject [(js ''type'', JString (js ''strong'')), (js ''children'', JArray (map toJs cs))]"
| "toJs (Emphasis cs) =
     JObject [(js ''type'', JString (js ''emphasis'')), (js ''children'', JArray (map toJs cs))]"
| "toJs (InlineCode v) = JObject [(js ''type'', JString (js ''inlineCode'')), (js ''value'', JString v)]"
| "toJs (Link u cs) =
     JObject [(js ''type'', JString (js ''link'')), (js ''url'', JString u),
              (js ''children'', JArray (map toJs cs))]"
| "toJs (Image u a) =
     JObject [(js ''type'', JString (js ''image'')), (js ''url'', JString u), (js ''alt'', JString a)]"
| "toJs Break = JObject [(js ''type'', JString (js ''break''))]"
| "toJs (Other ty v cs) =
     JObject ([(js ''type'', JString ty)]
       @ (case v of Some s \<Rightarrow> [(js ''value'', JString s)] | None \<Rightarrow> [])
       @ (case cs of Some ns \<Rightarrow> [(js ''children'', JArray (map toJs ns))] | None \<Rightarrow> []))"

text \<open>A value is JSON data when no \<open>undefined\<close> and no number that is not finite occurs in
  it.\<close>

fun jsonData :: "jsValue \<Rightarrow> bool"
  and jsonDataElements :: "jsValue list \<Rightarrow> bool"
  and jsonDataMembers :: "(jsstring \<times> jsValue) list \<Rightarrow> bool" where
  "jsonData JUndefined = False"
| "jsonData JNull = True"
| "jsonData (JBool b) = True"
| "jsonData (JNumber n) = True"
| "jsonData JNonFinite = False"
| "jsonData (JString s) = True"
| "jsonData (JArray xs) = jsonDataElements xs"
| "jsonData (JObject kvs) = jsonDataMembers kvs"
| "jsonDataElements [] = True"
| "jsonDataElements (x # xs) = (jsonData x \<and> jsonDataElements xs)"
| "jsonDataMembers [] = True"
| "jsonDataMembers ((k, v) # kvs) = (jsonData v \<and> jsonDataMembers kvs)"

(* PROPERTIES *)

section \<open>Properties of the front matter\<close>

lemma list_ex_yamlSpecial:
  "list_ex yamlSpecial v \<longleftrightarrow> set v \<inter> yaml_significant \<noteq> {}"
  by (auto simp: list_ex_iff yamlSpecial_def yaml_significant_def)

lemma startsWith_space:
  "startsWith v (js '' '') \<longleftrightarrow> v \<noteq> [] \<and> hd v = 32"
  by (cases v) (auto simp: startsWith_def js_def)

lemma escapeYamlValue_needs_quotes:
  "escapeYamlValue v =
     (if needs_quotes v then [34] @ replaceAll 34 [92, 34] v @ [34] else v)"
  by (simp add: escapeYamlValue_def needs_quotes_def list_ex_yamlSpecial startsWith_space)
     (simp add: js_def)

text \<open>
  C8. In the front matter every scalar value is emitted through the same quoting rule,
  whether it is the value of a field (line \<open>key: value\<close>), an item of a sequence (line
  \<open>  - item\<close> under the line \<open>key:\<close>) or the value of a nested pair (line
  \<open>  subKey: value\<close> under the line \<open>key:\<close>). When the value has one of the characters
  \<open>: # [ ] { } | > & * ! ? ,\<close>, or a newline, or starts with a space, it is wrapped in
  double quotes and each of its double quotes is written \<open>\"\<close>, every other character
  (a backslash included) staying as it is; otherwise the value is emitted as it is. A field
  that is \<open>undefined\<close> or \<open>null\<close> gives no line, and the lines of a field stand in the front
  matter at the place of its key, between the two \<open>---\<close> lines.
\<close>

theorem frontmatter_scalar_quoting:
  "entryLines (k, Scalar v) =
     [k @ js '': '' @ (if needs_quotes v then [34] @ replaceAll 34 [92, 34] v @ [34] else v)]
   \<and> entryLines (k, Sequence items) =
       (k @ js '':'')
         # map (\<lambda>item. js ''  - ''
               @ (if needs_quotes item then [34] @ replaceAll 34 [92, 34] item @ [34] else item)) items
   \<and> entryLines (k, Nested kvs) =
       (k @ js '':'')
         # map (\<lambda>(subKey, subValue). js ''  '' @ subKey @ js '': ''
               @ (if needs_quotes subValue then [34] @ replaceAll 34 [92, 34] subValue @ [34]
                  else subValue)) kvs
   \<and> entryLines (k, Nullish) = []
   \<and> generateFrontmatter (before @ (k, val) # after) =
       joinWith [10] (js ''---'' # concat (map entryLines before) @ entryLines (k, val)
         @ concat (map entryLines after) @ [js ''---''])"
  by (simp add: escapeYamlValue_needs_quotes generateFrontmatter_def)

theorem frontmatter_scalar_quoting_witness:
  "entryLines (js ''title'', Scalar (js ''a: b'')) = [js ''title: '' @ [34] @ js ''a: b'' @ [34]]
   \<and> entryLines (js ''title'', Scalar (js ''Sample Document'')) = [js ''title: Sample Document'']
   \<and> entryLines (js ''title'', Scalar (js ''say '' @ [34] @ js ''hi'' @ [34] @ js ''!'')) =
       [js ''title: '' @ [34] @ js ''say '' @ [92, 34] @ js ''hi'' @ [92, 34] @ js ''!'' @ [34]]
   \<and> entryLines (js ''keywords'', Sequence [js ''a: b, c'', js ''plain'']) =
       [js ''keywords:'', js ''  - '' @ [34] @ js ''a: b, c'' @ [34], js ''  - plain'']
   \<and> entryLines (js ''extra'', Nested [(js ''note'', js ''x # y''), (js ''lang'', js ''en'')]) =
       [js ''extra:'', js ''  note: '' @ [34] @ js ''x # y'' @ [34], js ''  lang: en'']
   \<and> generateFrontmatter [(js ''title'', Scalar (js ''a: b'')), (js ''tags'', Sequence [js '' x''])] =
       js ''---'' @ [10] @ js ''title: '' @ [34] @ js ''a: b'' @ [34] @ [10]
         @ js ''tags:'' @ [10] @ js ''  - '' @ [34] @ js '' x'' @ [34] @ [10] @ js ''---''"
  using
    frontmatter_scalar_quoting [where k = "js ''title''" and v = "js ''a: b''" and items = "[]"
      and kvs = "[]" and before = "[]" and val = "Scalar (js ''a: b'')"
      and after = "[(js ''tags'', Sequence [js '' x''])]"]
    frontmatter_scalar_quoting [where k = "js ''title''" and v = "js ''Sample Document''"
      and items = "[]" and kvs = "[]" and before = "[]" and val = "Nullish" and after = "[]"]
    frontmatter_scalar_quoting [where k = "js ''title''"
      and v = "js ''say '' @ [34] @ js ''hi'' @ [34] @ js ''!''"
      and items = "[]" and kvs = "[]" and before = "[]" and val = "Nullish" and after = "[]"]
    frontmatter_scalar_quoting [where k = "js ''keywords''" and v = "[]"
      and items = "[js ''a: b, c'', js ''plain'']" and kvs = "[]" and before = "[]"
      and val = "Nullish" and after = "[]"]
    frontmatter_scalar_quoting [where k = "js ''extra''" and v = "[]" and items = "[]"
      and kvs = "[(js ''note'', js ''x # y''), (js ''lang'', js ''en'')]" and before = "[]"
      and val = "Nullish" and after = "[]"]
  by (simp add: escapeYamlValue_needs_quotes needs_quotes_def yaml_significant_def replaceAll_def
      js_def)

section \<open>Properties of the paragraph spacing\<close>

lemma ensureParagraphSpacing_plain:
  "list_all (\<lambda>x. x \<noteq> 10) b \<Longrightarrow>
   ensureParagraphSpacing (b @ t) = b @ ensureParagraphSpacing t"
  by (induction b) auto

lemma takeWhile_newline_Nil:
  "t = [] \<or> hd t \<noteq> 10 \<Longrightarrow> takeWhile (\<lambda>x. x = (10::nat)) t = []"
  by (cases t) auto

lemma ensureParagraphSpacing_short:
  assumes "list_all (\<lambda>x. x = 10) b" "length b < 3" "t = [] \<or> hd t \<noteq> 10"
  shows "ensureParagraphSpacing (b @ t) = b @ ensureParagraphSpacing t"
proof -
  from assms(1,2) consider "b = []" | "b = [10]" | "b = [10, 10]"
    by (cases b; cases "tl b"; cases "tl (tl b)") auto
  then show ?thesis
    using takeWhile_newline_Nil [OF assms(3)] by cases auto
qed

lemma hd_dropWhile_newline:
  "dropWhile (\<lambda>x. x = (10::nat)) cs = [] \<or> hd (dropWhile (\<lambda>x. x = 10) cs) \<noteq> 10"
  using hd_dropWhile [of "\<lambda>x. x = (10::nat)" cs] by blast

lemma hd_dropWhile_not_newline:
  "dropWhile (\<lambda>x. x \<noteq> (10::nat)) cs = [] \<or> hd (dropWhile (\<lambda>x. x \<noteq> 10) cs) = 10"
  using hd_dropWhile [of "\<lambda>x. x \<noteq> (10::nat)" cs] by blast

lemma concat_nl_blocks: "concat (nl_blocks t) = t"
  by (induction t rule: nl_blocks.induct) auto

lemma hd_nl_blocks: "t \<noteq> [] \<Longrightarrow> nl_blocks t \<noteq> [] \<and> hd (hd (nl_blocks t)) = hd t"
  by (cases t) auto

lemma ensureParagraphSpacing_blocks:
  "ensureParagraphSpacing t = concat (map collapse_block (nl_blocks t))"
proof (induction t rule: nl_blocks.induct)
  case 1
  show ?case by simp
next
  case (2 c cs)
  show ?case
  proof (cases "c = 10")
    case True
    let ?r = "takeWhile (\<lambda>x. x = 10) cs" and ?d = "dropWhile (\<lambda>x. x = 10) cs"
    have IH: "ensureParagraphSpacing ?d = concat (map collapse_block (nl_blocks ?d))"
      using 2(1) True by simp
    show ?thesis
    proof (cases "3 \<le> length (c # ?r)")
      case long: True
      then have "collapse_block (c # ?r) = [10, 10]"
        using True by (simp add: collapse_block_def startsWith_def)
      then show ?thesis using True IH long by simp
    next
      case short: False
      then have cb: "collapse_block (c # ?r) = c # ?r"
        by (simp add: collapse_block_def)
      have "ensureParagraphSpacing ((c # ?r) @ ?d) = (c # ?r) @ ensureParagraphSpacing ?d"
        using short True hd_dropWhile_newline [of cs]
        by (intro ensureParagraphSpacing_short) (auto simp: list_all_iff dest: set_takeWhileD)
      then have "ensureParagraphSpacing (c # cs) = (c # ?r) @ ensureParagraphSpacing ?d"
        by simp
      then show ?thesis using True IH cb by simp
    qed
  next
    case False
    let ?r = "takeWhile (\<lambda>x. x \<noteq> 10) cs" and ?d = "dropWhile (\<lambda>x. x \<noteq> 10) cs"
    have IH: "ensureParagraphSpacing ?d = concat (map collapse_block (nl_blocks ?d))"
      using 2(2) False by simp
    have "ensureParagraphSpacing ((c # ?r) @ ?d) = (c # ?r) @ ensureParagraphSpacing ?d"
      using False by (intro ensureParagraphSpacing_plain) (auto simp: list_all_iff dest: set_takeWhileD)
    then have "ensureParagraphSpacing (c # cs) = (c # ?r) @ ensureParagraphSpacing ?d"
      by simp
    moreover have "collapse_block (c # ?r) = c # ?r"
      using False by (simp add: collapse_block_def startsWith_def)
    ultimately show ?thesis using False IH by simp
  qed
qed

lemma alternating_nl_blocks: "alternating (nl_blocks t)"
proof (induction t rule: nl_blocks.induct)
  case 1
  show ?case by simp
next
  case (2 c cs)
  show ?case
  proof (cases "c = 10")
    case True
    let ?r = "takeWhile (\<lambda>x. x = 10) cs" and ?d = "dropWhile (\<lambda>x. x = 10) cs"
    have h: "homogeneous (c # ?r)"
      using True by (auto simp: homogeneous_def list_all_iff dest: set_takeWhileD)
    have IH: "alternating (nl_blocks ?d)" using 2(1) True by simp
    show ?thesis
    proof (cases "nl_blocks ?d")
      case Nil
      with True h show ?thesis by simp
    next
      case (Cons b' bs)
      then have "?d \<noteq> []" by (cases ?d) simp_all
      with hd_nl_blocks [of ?d] hd_dropWhile_newline [of cs] Cons have "hd b' \<noteq> 10" by auto
      with True h IH Cons show ?thesis by simp
    qed
  next
    case False
    let ?r = "takeWhile (\<lambda>x. x \<noteq> 10) cs" and ?d = "dropWhile (\<lambda>x. x \<noteq> 10) cs"
    have h: "homogeneous (c # ?r)"
      using False by (auto simp: homogeneous_def list_all_iff dest: set_takeWhileD)
    have IH: "alternating (nl_blocks ?d)" using 2(2) False by simp
    show ?thesis
    proof (cases "nl_blocks ?d")
      case Nil
      with False h show ?thesis by simp
    next
      case (Cons b' bs)
      then have "?d \<noteq> []" by (cases ?d) simp_all
      with hd_nl_blocks [of ?d] hd_dropWhile_not_newline [of cs] Cons have "hd b' = 10" by auto
      with False h IH Cons show ?thesis by simp
    qed
  qed
qed

text \<open>
  C7, as the claim states it, fails: between two lines of text, three blank lines (four
  newlines) become one blank line, not two, and two blank lines (three newlines), which the
  claim leaves alone, become one as well.
\<close>

theorem blank_lines_collapse_counterexample:
  "blank_runs (js ''a'' @ [10, 10, 10, 10] @ js ''b'') = [3]
   \<and> blank_runs (ensureParagraphSpacing (js ''a'' @ [10, 10, 10, 10] @ js ''b'')) = [1]
   \<and> blank_runs (ensureParagraphSpacing (js ''a'' @ [10, 10, 10, 10] @ js ''b'')) \<noteq> [2]
   \<and> blank_runs (js ''a'' @ [10, 10, 10] @ js ''b'') = [2]
   \<and> blank_runs (ensureParagraphSpacing (js ''a'' @ [10, 10, 10] @ js ''b'')) = [1]"
  by (simp add: blank_runs_def js_def)

text \<open>
  C7, amended. Cut the text into its maximal blocks (runs of newlines and runs of other
  characters, in turn). The step replaces every block of three or more newline characters
  by exactly two newline characters and keeps every other block as it is: a shorter run of
  newlines and every other character are unchanged.
\<close>

theorem ensureParagraphSpacing_collapses_newline_runs:
  "concat (nl_blocks t) = t
   \<and> alternating (nl_blocks t)
   \<and> ensureParagraphSpacing t = concat (map collapse_block (nl_blocks t))"
  by (simp add: concat_nl_blocks alternating_nl_blocks ensureParagraphSpacing_blocks [symmetric])

theorem ensureParagraphSpacing_collapses_newline_runs_witness:
  "nl_blocks (js ''a'' @ [10, 10, 10, 10] @ js ''b'' @ [10, 10] @ js ''c'')
     = [js ''a'', [10, 10, 10, 10], js ''b'', [10, 10], js ''c'']
   \<and> ensureParagraphSpacing (js ''a'' @ [10, 10, 10, 10] @ js ''b'' @ [10, 10] @ js ''c'')
     = js ''a'' @ [10, 10] @ js ''b'' @ [10, 10] @ js ''c''"
  using ensureParagraphSpacing_collapses_newline_runs
    [of "js ''a'' @ [10, 10, 10, 10] @ js ''b'' @ [10, 10] @ js ''c''"]
  by (simp add: js_def collapse_block_def startsWith_def)

section \<open>Properties of the lossy-text reconstructors\<close>

lemmas eval_defs = js_def trim_def isWhiteSpace_def isDigit_def isAsciiUpper_def isAsciiLower_def
  isAsciiLetter_def asciiPlatform_def endsWithPunctuation_def afterMarker_def matchBullet_def orElse_def
  isBullet_pdf_def isIVX_def matchNumbered_pdf_def isListItem_pdf_def stopWords_def isTitleCase_def
  sectionPrefix_def isNumberedSection_def isLikelyHeading_pdf_def detectHeadingLevel_pdf_def
  createHeading_def createParagraph_def isOrderedMarker_pdf_def cleanText_pdf_def createList_pdf_def
  flushParagraph_def flushList_def scanLine_def finishScan_def initialScan_def parseExtractedText_def
  isBullet_docx_def matchNumbered_docx_def isListItem_docx_def isLikelyHeading_docx_def
  detectHeadingLevel_docx_def isOrderedMarker_docx_def cleanText_docx_def createList_docx_def
  flushParagraph_docx_def rawLine_def parseRawText_def Let_def

declare is_section_number.simps [simp del]
declare dotGroups.simps [simp del]

lemma isDigit_not_dot: "isDigit c \<Longrightarrow> c \<noteq> 46"
  by (auto simp: isDigit_def)

lemma dot_count_digits: "list_all isDigit d \<Longrightarrow> dot_count d = 0"
  by (induction d) (auto simp: dot_count_def isDigit_def)

lemma dotGroups_stop: "\<not> continues_number t \<Longrightarrow> dotGroups t = (0, t)"
  by (subst dotGroups.simps) (auto simp: continues_number_def split: list.splits)

lemma dropWhile_digits_stop:
  "\<not> continues_number t \<Longrightarrow> list_all isDigit d \<Longrightarrow> dropWhile isDigit (d @ t) = t"
  by (induction d) (auto simp: continues_number_def split: list.splits)

lemma dotGroups_section_number:
  "is_section_number p \<Longrightarrow> \<not> continues_number t \<Longrightarrow>
   dotGroups (dropWhile isDigit (p @ t)) = (dot_count p, t)"
proof (induction p rule: is_section_number.induct)
  case (1 p)
  let ?d = "takeWhile isDigit p" and ?r = "dropWhile isDigit p"
  have p: "p = ?d @ ?r" by simp
  have d: "list_all isDigit ?d" by (auto simp: list_all_iff dest: set_takeWhileD)
  from "1.prems"(1) have ne: "?d \<noteq> []"
    by (subst (asm) is_section_number.simps) simp
  show ?case
  proof (cases ?r)
    case Nil
    then have "p = ?d" by (metis append_Nil2 takeWhile_dropWhile_id)
    then have "list_all isDigit p" using d by metis
    then show ?thesis
      using "1.prems"(2) by (simp add: dropWhile_digits_stop dotGroups_stop dot_count_digits)
  next
    case (Cons c q)
    from "1.prems"(1) Cons have c: "c = 46" and q: "is_section_number q"
      by (subst (asm) is_section_number.simps, simp)+
    from q obtain d0 q' where q': "q = d0 # q'" and d0: "isDigit d0"
      by (subst (asm) is_section_number.simps) (cases q, auto split: if_splits)
    have IH: "dotGroups (dropWhile isDigit (q @ t)) = (dot_count q, t)"
      using "1.IH" [OF Cons] q "1.prems"(2) by simp
    have nd: "\<not> isDigit c" using c by (simp add: isDigit_def)
    have "dropWhile isDigit (p @ t) = c # q @ t"
    proof -
      have "dropWhile isDigit (p @ t) = dropWhile isDigit (?d @ (?r @ t))"
        by (metis append.assoc p)
      also have "\<dots> = ?r @ t"
        using Cons nd by (subst dropWhile_append2) (auto dest: set_takeWhileD)
      finally show ?thesis using Cons by simp
    qed
    moreover have "dotGroups (c # q @ t) = (Suc (dot_count q), t)"
      using IH c q' d0 by (subst dotGroups.simps) simp
    moreover have "dot_count p = Suc (dot_count q)"
    proof -
      have "dot_count p = dot_count (?d @ c # q)" using p Cons by simp
      also have "\<dots> = dot_count ?d + Suc (dot_count q)" using c by (simp add: dot_count_def)
      finally show ?thesis using dot_count_digits [OF d] by simp
    qed
    ultimately show ?thesis by simp
  qed
qed

lemma sectionPrefix_section_number:
  assumes "is_section_number p" "\<not> continues_number t"
  shows "sectionPrefix (p @ t) = Some (dot_count p, t)"
proof -
  from assms(1) have "takeWhile isDigit p \<noteq> []"
    by (subst (asm) is_section_number.simps) simp
  then have "takeWhile isDigit (p @ t) \<noteq> []" by (cases p) (auto split: if_splits)
  then show ?thesis using dotGroups_section_number [OF assms] by (simp add: sectionPrefix_def)
qed

lemma sectionPrefix_None: "line = [] \<or> \<not> isDigit (hd line) \<Longrightarrow> sectionPrefix line = None"
  by (cases line) (auto simp: sectionPrefix_def)


lemma is_section_number_build:
  assumes "g \<noteq> []" "list_all isDigit g" "q = [] \<or> (hd q = 46 \<and> is_section_number (tl q))"
  shows "is_section_number (g @ q)"
proof -
  have nd: "q \<noteq> [] \<Longrightarrow> \<not> isDigit (hd q)" using assms(3) by (auto simp: isDigit_def)
  have q0: "takeWhile isDigit q = []" "dropWhile isDigit q = q"
    using nd by (cases q, simp, simp)+
  have gd: "\<And>x. x \<in> set g \<Longrightarrow> isDigit x" using assms(2) by (simp add: list_all_iff)
  have tw: "takeWhile isDigit (g @ q) = g"
    using takeWhile_append2 [of g isDigit q] gd q0(1) by simp
  have dw: "dropWhile isDigit (g @ q) = q"
    using dropWhile_append2 [of g isDigit q] gd q0(2) by simp
  have "case q of [] \<Rightarrow> True | c # q' \<Rightarrow> c = 46 \<and> is_section_number q'"
    using assms(3) by (cases q) auto
  then show ?thesis
    using assms(1) by (subst is_section_number.simps) (simp only: tw dw, simp)
qed



lemma section_tail_exists:
  "s = [] \<or> \<not> isDigit (hd s) \<Longrightarrow>
   \<exists>q t. s = q @ t \<and> \<not> continues_number t \<and> (q = [] \<or> (hd q = 46 \<and> is_section_number (tl q)))"
proof (induction s rule: length_induct)
  case (1 s)
  show ?case
  proof (cases "continues_number s")
    case False
    then show ?thesis by (intro exI [of _ "[]"] exI [of _ s]) simp
  next
    case True
    with "1.prems" obtain d r where s: "s = 46 # d # r" and d: "isDigit d"
      by (auto simp: continues_number_def split: list.splits)
    let ?g = "d # takeWhile isDigit r" and ?s' = "dropWhile isDigit r"
    have "length ?s' < length s" using s length_dropWhile_le [of isDigit r] by simp
    moreover have "?s' = [] \<or> \<not> isDigit (hd ?s')" using hd_dropWhile [of isDigit r] by blast
    ultimately obtain q t where q: "?s' = q @ t" "\<not> continues_number t"
        "q = [] \<or> (hd q = 46 \<and> is_section_number (tl q))"
      using "1.IH" by blast
    have g: "list_all isDigit ?g" using d by (auto simp: list_all_iff dest: set_takeWhileD)
    have "is_section_number (?g @ q)" using is_section_number_build [OF _ g q(3)] by simp
    moreover have "s = (46 # ?g @ q) @ t"
    proof -
      have "r = takeWhile isDigit r @ ?s'" by simp
      then have "r = takeWhile isDigit r @ q @ t" using q(1) by simp
      then show ?thesis using s by simp
    qed
    ultimately show ?thesis using q(2) by (intro exI [of _ "46 # ?g @ q"] exI [of _ t]) simp
  qed
qed

lemma section_prefix_exists:
  assumes "line \<noteq> []" "isDigit (hd line)"
  shows "\<exists>p t. line = p @ t \<and> is_section_number p \<and> \<not> continues_number t"
proof -
  let ?g = "takeWhile isDigit line" and ?s = "dropWhile isDigit line"
  have g: "?g \<noteq> []" "list_all isDigit ?g"
    using assms by (cases line, auto simp: list_all_iff dest: set_takeWhileD)
  have "?s = [] \<or> \<not> isDigit (hd ?s)" using hd_dropWhile [of isDigit line] by blast
  then obtain q t where q: "?s = q @ t" "\<not> continues_number t"
      "q = [] \<or> (hd q = 46 \<and> is_section_number (tl q))"
    using section_tail_exists by blast
  have "is_section_number (?g @ q)" by (rule is_section_number_build [OF g q(3)])
  moreover have "line = (?g @ q) @ t"
  proof -
    have "line = ?g @ ?s" by simp
    then show ?thesis using q(1) by simp
  qed
  ultimately show ?thesis using q(2) by blast
qed

lemma isListItem_pdf_Nil: "\<not> isListItem_pdf []"
  by (simp add: isListItem_pdf_def matchBullet_def matchNumbered_pdf_def orElse_def)

lemma scanLine_listItem:
  "isListItem_pdf t \<Longrightarrow>
   scanLine pf t nx st = (flushParagraph st)\<lparr> inList := True, listItems := listItems st @ [t] \<rparr>"
  using isListItem_pdf_Nil by (auto simp: scanLine_def Let_def flushParagraph_def)

lemma scanLines_run:
  "list_all (\<lambda>l. isListItem_pdf (trim l)) run \<Longrightarrow>
   scanLines pf st (run @ rest) =
     scanLines pf (if run = [] then st
                   else (flushParagraph st)\<lparr> inList := True, listItems := listItems st @ map trim run \<rparr>) rest"
proof (induction run arbitrary: st)
  case Nil
  show ?case by simp
next
  case (Cons l run)
  then have l: "isListItem_pdf (trim l)" and run: "list_all (\<lambda>l. isListItem_pdf (trim l)) run"
    by simp_all
  let ?st' = "(flushParagraph st)\<lparr> inList := True, listItems := listItems st @ [trim l] \<rparr>"
  have fp: "flushParagraph ?st' = ?st'" by (simp add: flushParagraph_def)
  have "scanLines pf st ((l # run) @ rest) = scanLines pf ?st' (run @ rest)"
    using scanLine_listItem [OF l] by simp
  also have "\<dots> = scanLines pf (if run = [] then ?st'
       else (flushParagraph ?st')\<lparr> inList := True, listItems := listItems ?st' @ map trim run \<rparr>) rest"
    by (rule Cons.IH [OF run])
  also have "(if run = [] then ?st'
       else (flushParagraph ?st')\<lparr> inList := True, listItems := listItems ?st' @ map trim run \<rparr>)
     = (flushParagraph st)\<lparr> inList := True, listItems := listItems st @ map trim (l # run) \<rparr>"
    by (simp add: fp)
  finally show ?case by simp
qed

lemma scanLine_after_run:
  assumes "\<not> isListItem_pdf t" "items \<noteq> []"
  shows "scanLine pf t nx ((flushParagraph st)\<lparr> inList := True, listItems := items \<rparr>)
       = scanLine pf t nx (st\<lparr> children := children (flushParagraph st) @ [createList_pdf items],
            currentParagraphLines := [], inList := False, listItems := [] \<rparr>)"
  using assms by (simp add: scanLine_def flushParagraph_def flushList_def Let_def)

lemma list_run_single_node:
  assumes "run \<noteq> []" "list_all (\<lambda>l. isListItem_pdf (trim l)) run" "listItems st = []"
    "rest = [] \<or> \<not> isListItem_pdf (trim (hd rest))"
  shows "finishScan (scanLines pf st (run @ rest)) =
         finishScan (scanLines pf
           (st\<lparr> children := children (flushParagraph st) @ [createList_pdf (map trim run)],
                currentParagraphLines := [], inList := False, listItems := [] \<rparr>) rest)"
proof -
  let ?A = "(flushParagraph st)\<lparr> inList := True, listItems := map trim run \<rparr>"
  have A: "scanLines pf st (run @ rest) = scanLines pf ?A rest"
    using scanLines_run [OF assms(2), of pf st rest] assms(1,3) by simp
  show ?thesis
  proof (cases rest)
    case Nil
    then show ?thesis using A assms(1) by (simp add: finishScan_def flushParagraph_def)
  next
    case (Cons l rest')
    with assms(4) have "\<not> isListItem_pdf (trim l)" by simp
    then show ?thesis
      using A Cons assms(1) scanLine_after_run [of "trim l" "map trim run" pf _ st] by simp
  qed
qed

lemma scanLine_not_list_items:
  "inList st \<or> listItems st = [] \<Longrightarrow> \<not> isListItem_pdf t \<Longrightarrow>
   listItems (scanLine pf t nx st) = []"
  by (auto simp: scanLine_def flushList_def flushParagraph_def Let_def)

lemma scanLine_invariant:
  "inList st \<or> listItems st = [] \<Longrightarrow>
   inList (scanLine pf t nx st) \<or> listItems (scanLine pf t nx st) = []"
  by (auto simp: scanLine_def flushList_def flushParagraph_def Let_def)

lemma createList_pdf_ordered:
  "run \<noteq> [] \<Longrightarrow>
   createList_pdf (map trim run) =
     ListNode (isOrderedMarker_pdf (trim (hd run)))
       (map (\<lambda>l. ListItem [Paragraph [Text (cleanText_pdf (trim l))]]) run)"
  by (cases run) (simp_all add: createList_pdf_def createParagraph_def comp_def)

lemma isLikelyHeading_docx_not_list:
  "isListItem_docx t \<Longrightarrow> \<not> isLikelyHeading_docx pf t b"
  by (simp add: isLikelyHeading_docx_def)

lemma isListItem_docx_Nil: "\<not> isListItem_docx []"
  by (simp add: isListItem_docx_def matchBullet_def matchNumbered_docx_def)

lemma rawLine_listItem:
  "isListItem_docx t \<Longrightarrow>
   rawLine pf t (ch, buf) =
     (fst (flushParagraph_docx (ch, buf)) @
        [ListNode (isOrderedMarker_docx t) [ListItem [Paragraph [Text (cleanText_docx t)]]]], [])"
  using isListItem_docx_Nil
  by (auto simp: rawLine_def isLikelyHeading_docx_not_list flushParagraph_docx_def
      createList_docx_def createParagraph_def)

lemma scanLine_heading:
  assumes "t \<noteq> []" "isLikelyHeading_pdf pf t nx (currentParagraphLines (flushList st) = [])"
  shows "children (scanLine pf t nx st) =
         children (flushParagraph (flushList st)) @ [Heading (detectHeadingLevel_pdf pf t) [Text t]]"
proof -
  from assms(2) have "\<not> isListItem_pdf t"
    by (auto simp: isLikelyHeading_pdf_def split: if_splits)
  with assms show ?thesis by (simp add: scanLine_def Let_def createHeading_def)
qed

lemma rawLine_heading:
  assumes "t \<noteq> []" "isLikelyHeading_docx pf t (buf = [])"
  shows "rawLine pf t (ch, buf) =
         (fst (flushParagraph_docx (ch, buf)) @ [Heading (detectHeadingLevel_docx pf t) [Text t]], [])"
  using assms by (auto simp: rawLine_def flushParagraph_docx_def createHeading_def)

text \<open>
  C4, as the claim states it, fails on the packaged-document raw-text path: two consecutive
  list-item lines give two list nodes of one item each, where the print-document
  reconstructor gives one list node of two items.
\<close>

theorem docx_list_counterexample:
  "parseRawText asciiPlatform (js ''- a'' @ [10] @ js ''- b'') =
     Root [ListNode False [ListItem [Paragraph [Text (js ''a'')]]],
           ListNode False [ListItem [Paragraph [Text (js ''b'')]]]]
   \<and> parseRawText asciiPlatform (js ''- a'' @ [10] @ js ''- b'') \<noteq>
     Root [ListNode False [ListItem [Paragraph [Text (js ''a'')]], ListItem [Paragraph [Text (js ''b'')]]]]
   \<and> parseExtractedText asciiPlatform (js ''- a'' @ [10] @ js ''- b'') =
     Root [ListNode False [ListItem [Paragraph [Text (js ''a'')]], ListItem [Paragraph [Text (js ''b'')]]]]"
  by (simp add: eval_defs)

text \<open>
  C4, amended. In the print-document reconstructor a run of consecutive list-item lines that
  starts with no list pending and ends at a blank line, at a line that is no list item or
  at the end of the text is collected into a single list node, emitted after the pending
  paragraph; the node's ordered flag is the marker pattern of the first collected item. No
  list is pending at the start and after any line that is no list item. A blank line flushes
  the pending paragraph and the pending list, and the paragraph is one paragraph node whose
  text is the buffered lines joined with a single space. In the packaged-document raw-text
  path a blank line flushes the pending paragraph in the same way, and every list-item
  line is emitted at once as a list node of its own with that one item, whose ordered flag
  is the marker pattern of that item.
\<close>

theorem list_runs_and_paragraph_flush:
  "(run \<noteq> [] \<and> list_all (\<lambda>l. isListItem_pdf (trim l)) run \<and> listItems st = []
      \<and> (rest = [] \<or> \<not> isListItem_pdf (trim (hd rest))) \<longrightarrow>
      finishScan (scanLines pf st (run @ rest)) =
      finishScan (scanLines pf
        (st\<lparr> children := children (flushParagraph st) @ [createList_pdf (map trim run)],
             currentParagraphLines := [], inList := False, listItems := [] \<rparr>) rest))
   \<and> (run \<noteq> [] \<longrightarrow>
      createList_pdf (map trim run) =
        ListNode (isOrderedMarker_pdf (trim (hd run)))
          (map (\<lambda>l. ListItem [Paragraph [Text (cleanText_pdf (trim l))]]) run))
   \<and> listItems initialScan = []
   \<and> ((inList st \<or> listItems st = []) \<longrightarrow>
        (inList (scanLine pf t nx st) \<or> listItems (scanLine pf t nx st) = []))
   \<and> ((inList st \<or> listItems st = []) \<and> \<not> isListItem_pdf t \<longrightarrow>
        listItems (scanLine pf t nx st) = [])
   \<and> (trim l = [] \<longrightarrow>
        scanLines pf st (l # rest) = scanLines pf (flushList (flushParagraph st)) rest)
   \<and> (currentParagraphLines st \<noteq> [] \<longrightarrow>
        flushParagraph st =
          st\<lparr> children := children st @ [Paragraph [Text (joinWith [32] (currentParagraphLines st))]],
              currentParagraphLines := [] \<rparr>)
   \<and> (isListItem_docx t \<longrightarrow>
        rawLine pf t (ch, buf) =
          (fst (flushParagraph_docx (ch, buf)) @
             [ListNode (isOrderedMarker_docx t) [ListItem [Paragraph [Text (cleanText_docx t)]]]], []))
   \<and> rawLine pf [] (ch, buf) = flushParagraph_docx (ch, buf)
   \<and> (buf \<noteq> [] \<longrightarrow>
        flushParagraph_docx (ch, buf) = (ch @ [Paragraph [Text (joinWith [32] buf)]], []))"
proof (intro conjI impI)
  assume a: "run \<noteq> [] \<and> list_all (\<lambda>l. isListItem_pdf (trim l)) run \<and> listItems st = []
      \<and> (rest = [] \<or> \<not> isListItem_pdf (trim (hd rest)))"
  then show "finishScan (scanLines pf st (run @ rest)) =
      finishScan (scanLines pf
        (st\<lparr> children := children (flushParagraph st) @ [createList_pdf (map trim run)],
             currentParagraphLines := [], inList := False, listItems := [] \<rparr>) rest)"
    by (intro list_run_single_node) simp_all
next
  assume "run \<noteq> []"
  then show "createList_pdf (map trim run) =
        ListNode (isOrderedMarker_pdf (trim (hd run)))
          (map (\<lambda>l. ListItem [Paragraph [Text (cleanText_pdf (trim l))]]) run)"
    by (rule createList_pdf_ordered)
next
  show "listItems initialScan = []" by (simp add: initialScan_def)
next
  assume "inList st \<or> listItems st = []"
  then show "inList (scanLine pf t nx st) \<or> listItems (scanLine pf t nx st) = []"
    by (rule scanLine_invariant)
next
  assume "(inList st \<or> listItems st = []) \<and> \<not> isListItem_pdf t"
  then show "listItems (scanLine pf t nx st) = []"
    using scanLine_not_list_items by blast
next
  assume "trim l = []"
  then show "scanLines pf st (l # rest) = scanLines pf (flushList (flushParagraph st)) rest"
    by (simp add: scanLine_def)
next
  assume "currentParagraphLines st \<noteq> []"
  then show "flushParagraph st =
          st\<lparr> children := children st @ [Paragraph [Text (joinWith [32] (currentParagraphLines st))]],
              currentParagraphLines := [] \<rparr>"
    by (simp add: flushParagraph_def createParagraph_def)
next
  assume "isListItem_docx t"
  then show "rawLine pf t (ch, buf) =
          (fst (flushParagraph_docx (ch, buf)) @
             [ListNode (isOrderedMarker_docx t) [ListItem [Paragraph [Text (cleanText_docx t)]]]], [])"
    by (rule rawLine_listItem)
next
  show "rawLine pf [] (ch, buf) = flushParagraph_docx (ch, buf)" by (simp add: rawLine_def)
next
  assume "buf \<noteq> []"
  then show "flushParagraph_docx (ch, buf) = (ch @ [Paragraph [Text (joinWith [32] buf)]], [])"
    by (simp add: flushParagraph_docx_def createParagraph_def)
qed

theorem list_runs_and_paragraph_flush_witness:
  "finishScan (scanLines asciiPlatform initialScan [js ''- a'', js ''  2) b'', [], js ''tail.'']) =
     Root [ListNode False [ListItem [Paragraph [Text (js ''a'')]], ListItem [Paragraph [Text (js ''b'')]]],
           Paragraph [Text (js ''tail.'')]]
   \<and> createList_pdf [js ''1. x'', js ''- y''] =
       ListNode True [ListItem [Paragraph [Text (js ''x'')]], ListItem [Paragraph [Text (js ''y'')]]]
   \<and> flushParagraph (initialScan\<lparr> currentParagraphLines := [js ''one'', js ''two''] \<rparr>) =
       initialScan\<lparr> children := [Paragraph [Text (js ''one two'')]] \<rparr>
   \<and> rawLine asciiPlatform (js ''1. x'') ([], [js ''p'']) =
       ([Paragraph [Text (js ''p'')], ListNode True [ListItem [Paragraph [Text (js ''x'')]]]], [])"
  using list_runs_and_paragraph_flush
      [where run = "[js ''- a'', js ''  2) b'']" and st = initialScan and rest = "[[], js ''tail.'']"
         and pf = asciiPlatform and t = "js ''1. x''" and ch = "[]" and buf = "[js ''p'']"]
    list_runs_and_paragraph_flush
      [where run = "[js ''1. x'', js ''- y'']" and pf = asciiPlatform
         and st = "initialScan\<lparr> currentParagraphLines := [js ''one'', js ''two''] \<rparr>"]
  by (simp add: eval_defs)

text \<open>
  C5, as the claim states it, fails on the packaged-document raw-text path: a first line of
  45 lower-case letters and spaces, with no section number, is a heading of depth 2 there,
  where the claimed rule (and the print-document reconstructor) gives depth 3.
\<close>

theorem docx_heading_depth_counterexample:
  "parseRawText asciiPlatform (js ''an overview of the conversion pipeline stages'') =
     Root [Heading 2 [Text (js ''an overview of the conversion pipeline stages'')]]
   \<and> js ''an overview of the conversion pipeline stages''
       \<noteq> toUpperCase asciiPlatform (js ''an overview of the conversion pipeline stages'')
   \<and> \<not> isDigit (hd (js ''an overview of the conversion pipeline stages''))
   \<and> length (js ''an overview of the conversion pipeline stages'') = 45
   \<and> detectHeadingLevel_pdf asciiPlatform (js ''an overview of the conversion pipeline stages'') = 3"
  by (simp add: eval_defs)

text \<open>
  C5, amended. In the print-document reconstructor the depth of a heading line is 1 when
  the line is all-caps; otherwise, when the line starts with a section number, the number
  of dots of that section number plus 1, capped at 6 (every line that starts with a digit
  starts with a section number); otherwise 1, 2, 3 or 4 as the length of the line is below
  25, below 40, below 60 or longer. The heading node emitted for the line carries that
  depth. In the packaged-document raw-text path the depth is 1 when the line is all-caps
  and shorter than 40 or when it is shorter than 30, else 2 when it is shorter than 50,
  else 3, and the heading node emitted carries that depth.
\<close>

theorem heading_depth_rule:
  "(line = toUpperCase pf line \<longrightarrow> detectHeadingLevel_pdf pf line = 1)
   \<and> (p @ t \<noteq> toUpperCase pf (p @ t) \<and> is_section_number p \<and> \<not> continues_number t \<longrightarrow>
        detectHeadingLevel_pdf pf (p @ t) = min (dot_count p + 1) 6)
   \<and> (line \<noteq> [] \<and> isDigit (hd line) \<longrightarrow>
        (\<exists>p t. line = p @ t \<and> is_section_number p \<and> \<not> continues_number t))
   \<and> (line \<noteq> toUpperCase pf line \<and> (line = [] \<or> \<not> isDigit (hd line)) \<longrightarrow>
        detectHeadingLevel_pdf pf line =
          (if length line < 25 then 1 else if length line < 40 then 2
           else if length line < 60 then 3 else 4))
   \<and> (line \<noteq> [] \<and> isLikelyHeading_pdf pf line nx (currentParagraphLines (flushList st) = []) \<longrightarrow>
        children (scanLine pf line nx st) =
          children (flushParagraph (flushList st)) @ [Heading (detectHeadingLevel_pdf pf line) [Text line]])
   \<and> detectHeadingLevel_docx pf line =
        (if (line = toUpperCase pf line \<and> length line < 40) \<or> length line < 30 then 1
         else if length line < 50 then 2 else 3)
   \<and> (line \<noteq> [] \<and> isLikelyHeading_docx pf line (buf = []) \<longrightarrow>
        rawLine pf line (ch, buf) =
          (fst (flushParagraph_docx (ch, buf)) @ [Heading (detectHeadingLevel_docx pf line) [Text line]], []))"
proof (intro conjI impI)
  assume "line = toUpperCase pf line"
  then show "detectHeadingLevel_pdf pf line = 1" by (simp add: detectHeadingLevel_pdf_def)
next
  assume "p @ t \<noteq> toUpperCase pf (p @ t) \<and> is_section_number p \<and> \<not> continues_number t"
  then show "detectHeadingLevel_pdf pf (p @ t) = min (dot_count p + 1) 6"
    using sectionPrefix_section_number [of p t] by (simp add: detectHeadingLevel_pdf_def)
next
  assume "line \<noteq> [] \<and> isDigit (hd line)"
  then show "\<exists>p t. line = p @ t \<and> is_section_number p \<and> \<not> continues_number t"
    using section_prefix_exists by blast
next
  assume "line \<noteq> toUpperCase pf line \<and> (line = [] \<or> \<not> isDigit (hd line))"
  then show "detectHeadingLevel_pdf pf line =
          (if length line < 25 then 1 else if length line < 40 then 2
           else if length line < 60 then 3 else 4)"
    using sectionPrefix_None [of line] by (simp add: detectHeadingLevel_pdf_def)
next
  assume "line \<noteq> [] \<and> isLikelyHeading_pdf pf line nx (currentParagraphLines (flushList st) = [])"
  then show "children (scanLine pf line nx st) =
          children (flushParagraph (flushList st)) @ [Heading (detectHeadingLevel_pdf pf line) [Text line]]"
    using scanLine_heading by blast
next
  show "detectHeadingLevel_docx pf line =
        (if (line = toUpperCase pf line \<and> length line < 40) \<or> length line < 30 then 1
         else if length line < 50 then 2 else 3)"
    by (simp add: detectHeadingLevel_docx_def)
next
  assume "line \<noteq> [] \<and> isLikelyHeading_docx pf line (buf = [])"
  then show "rawLine pf line (ch, buf) =
          (fst (flushParagraph_docx (ch, buf)) @ [Heading (detectHeadingLevel_docx pf line) [Text line]], [])"
    using rawLine_heading by blast
qed

lemma is_section_number_example: "is_section_number (js ''1.2.3'')"
  by (simp add: is_section_number.simps js_def isDigit_def)

theorem heading_depth_rule_witness:
  "detectHeadingLevel_pdf asciiPlatform (js ''OVERVIEW'') = 1
   \<and> detectHeadingLevel_pdf asciiPlatform (js ''1.2.3 Scope of the work'') = 3
   \<and> detectHeadingLevel_pdf asciiPlatform (js ''A title of middling length'') = 2
   \<and> children (scanLine asciiPlatform (js ''OVERVIEW'') [] initialScan) =
        [Heading 1 [Text (js ''OVERVIEW'')]]
   \<and> rawLine asciiPlatform (js ''Summary'') ([], []) = ([Heading 1 [Text (js ''Summary'')]], [])"
  using heading_depth_rule [where pf = asciiPlatform and line = "js ''OVERVIEW''" and st = initialScan
      and nx = "[]" and p = "js ''1.2.3''" and t = "js '' Scope of the work''"]
    heading_depth_rule [where pf = asciiPlatform and line = "js ''A title of middling length''"]
    heading_depth_rule [where pf = asciiPlatform and line = "js ''Summary''" and buf = "[]" and ch = "[]"]
    is_section_number_example
  by (simp add: eval_defs continues_number_def dot_count_def)

section \<open>Properties of the format detection\<close>

lemma detectStringFormat_range:
  "detectStringFormat s = Fmt_md \<or> detectStringFormat s = Fmt_html"
  by (simp add: detectStringFormat_def Let_def split: option.split prod.split)

lemma detectStringFormat_empty: "detectStringFormat [] = Fmt_md"
  by (simp add: detectStringFormat_def trim_def startsWith_def js_def)

text \<open>
  C1. For every input, a string or a byte sequence, \<open>detectInputFormat\<close> returns one of
  the four classifications markdown, html, pdf and docx (the function has no failing path:
  a decoder that throws is caught). The empty string is markdown, and so is the empty byte
  sequence, which the platform's decoder turns into the empty string.
\<close>

theorem detectInputFormat_total:
  "detectInputFormat decoder inp \<in> {Fmt_md, Fmt_html, Fmt_pdf, Fmt_docx}
   \<and> detectInputFormat decoder (Str []) = Fmt_md
   \<and> (decoder [] = Some [] \<or> decoder [] = None \<longrightarrow>
        detectInputFormat decoder (Buf []) = Fmt_md)"
proof (intro conjI impI)
  show "detectInputFormat decoder inp \<in> {Fmt_md, Fmt_html, Fmt_pdf, Fmt_docx}"
    using detectStringFormat_range
    by (auto simp: detectInputFormat_def split: input.split option.split)
next
  show "detectInputFormat decoder (Str []) = Fmt_md"
    by (simp add: detectInputFormat_def detectStringFormat_empty)
next
  assume "decoder [] = Some [] \<or> decoder [] = None"
  then show "detectInputFormat decoder (Buf []) = Fmt_md"
    by (auto simp: detectInputFormat_def detectStringFormat_empty)
qed

theorem detectInputFormat_total_witness:
  "detectInputFormat sampleDecoder (Buf []) = Fmt_md
   \<and> detectInputFormat sampleDecoder (Str []) = Fmt_md
   \<and> detectInputFormat sampleDecoder (Buf [80, 75, 3, 4, 0, 0]) \<in> {Fmt_md, Fmt_html, Fmt_pdf, Fmt_docx}"
  using detectInputFormat_total [of sampleDecoder "Buf [80, 75, 3, 4, 0, 0]"]
  by (simp add: sampleDecoder_def)

text \<open>
  C6, as the claim states it, fails: a doctype declaration or an \<open>html\<close> tag in mixed
  letter casing is not recognised by the first two tests, and the text is classified as
  markdown.
\<close>

theorem mixed_case_doctype_counterexample:
  "detectInputFormat sampleDecoder (Str (js ''<!DocType html>'')) = Fmt_md
   \<and> detectInputFormat sampleDecoder (Str (js ''<Html lang=en>'')) = Fmt_md"
  by (simp add: detectInputFormat_def detectStringFormat_def trim_def startsWith_def endsWith_def
      js_def isWhiteSpace_def matchOpeningTag_def isAsciiLetter_def isAsciiUpper_def
      isAsciiLower_def isAlnum_def isDigit_def toLowerAscii_def testIgnoreCase_def
      voidElements_def Let_def upt_rec)

text \<open>
  C6, amended. Every string whose trimmed text starts with \<open><!DOCTYPE\<close> or \<open><!doctype\<close>
  (the doctype declaration in upper or in lower case), or with \<open><html\<close> or \<open><HTML\<close>, is
  classified as html.
\<close>

theorem doctype_and_html_tag_detected:
  "startsWith (trim s) (js ''<!DOCTYPE'') \<or> startsWith (trim s) (js ''<!doctype'')
     \<or> startsWith (trim s) (js ''<html'') \<or> startsWith (trim s) (js ''<HTML'') \<longrightarrow>
   detectInputFormat decoder (Str s) = Fmt_html"
  by (auto simp: detectInputFormat_def detectStringFormat_def Let_def)

theorem doctype_and_html_tag_detected_witness:
  "detectInputFormat sampleDecoder (Str (js ''  <!doctype html><html></html>'')) = Fmt_html
   \<and> detectInputFormat sampleDecoder (Str (js ''<HTML><body></body>'')) = Fmt_html"
  using doctype_and_html_tag_detected [of "js ''  <!doctype html><html></html>''" sampleDecoder]
    doctype_and_html_tag_detected [of "js ''<HTML><body></body>''" sampleDecoder]
  by (simp add: trim_def startsWith_def js_def isWhiteSpace_def)

section \<open>Properties of the conversion orchestrator\<close>

lemmas convert_eval_defs = convert_def validateInput_def resolveInputFormat_def parseInput_def
  convertToFormat_def getTemplateForRendering_def renderMarkdown_def renderHtml_def renderPdf_def
  renderDocx_def conversionError_def rejections_def fulfilled_def setResult_def emptyResult_def
  sampleCollaborators_def sampleDecoder_def VALID_FORMATS_def VALID_INPUT_FORMATS_def formatName_def
  detectInputFormat_def includesString_def

lemma formatName_detect_string:
  "formatName (detectStringFormat s) = js ''md'' \<or> formatName (detectStringFormat s) = js ''html''"
  using detectStringFormat_range [of s] by (auto simp: formatName_def)

lemma resolve_string_declared:
  assumes "resolveInputFormat env (Str s) opts = js ''pdf'' \<or> resolveInputFormat env (Str s) opts = js ''docx''"
  shows "inputFormat opts = Some (resolveInputFormat env (Str s) opts)"
proof -
  have "formatName (detectInputFormat (toStringUtf8 env) (Str s)) \<noteq> js ''pdf''"
       "formatName (detectInputFormat (toStringUtf8 env) (Str s)) \<noteq> js ''docx''"
    using formatName_detect_string [of s] by (auto simp: detectInputFormat_def js_def)
  with assms show ?thesis
    by (auto simp: resolveInputFormat_def split: option.splits if_splits)
qed

text \<open>
  C3. When the input is a string and the resolved input format is \<open>pdf\<close> or \<open>docx\<close> (which
  then is the declared one), a call that passes validation raises, at the parse dispatch, the
  ValidationError \<open>PDF input must be a Buffer\<close> or \<open>DOCX input must be a Buffer\<close> on the
  field \<open>input\<close>; the message contains \<open>must be a Buffer\<close>; and no parser and no renderer
  is called.
\<close>

theorem binary_format_needs_buffer:
  "parseInput env (Str s) (js ''pdf'') =
     (Inl (ValidationError (js ''PDF input must be a Buffer'') (js ''input'')), [])
   \<and> parseInput env (Str s) (js ''docx'') =
     (Inl (ValidationError (js ''DOCX input must be a Buffer'') (js ''input'')), [])
   \<and> includesString (js ''PDF input must be a Buffer'') (js ''must be a Buffer'')
   \<and> includesString (js ''DOCX input must be a Buffer'') (js ''must be a Buffer'')
   \<and> (validateInput (Input (Str s)) options = Inr (Str s, opts, fmts)
        \<and> (resolveInputFormat env (Str s) opts = js ''pdf''
             \<or> resolveInputFormat env (Str s) opts = js ''docx'') \<longrightarrow>
        convert env (Input (Str s)) options =
          (Inl (ValidationError
                 ((if resolveInputFormat env (Str s) opts = js ''pdf'' then js ''PDF'' else js ''DOCX'')
                    @ js '' input must be a Buffer'') (js ''input'')), [])
        \<and> inputFormat opts = Some (resolveInputFormat env (Str s) opts))"
proof (intro conjI impI)
  show "parseInput env (Str s) (js ''pdf'') =
     (Inl (ValidationError (js ''PDF input must be a Buffer'') (js ''input'')), [])"
    by (simp add: parseInput_def js_def)
next
  show "parseInput env (Str s) (js ''docx'') =
     (Inl (ValidationError (js ''DOCX input must be a Buffer'') (js ''input'')), [])"
    by (simp add: parseInput_def js_def)
next
  show "includesString (js ''PDF input must be a Buffer'') (js ''must be a Buffer'')"
    by (simp add: includesString_def js_def upt_rec)
next
  show "includesString (js ''DOCX input must be a Buffer'') (js ''must be a Buffer'')"
    by (simp add: includesString_def js_def upt_rec)
next
  assume a: "validateInput (Input (Str s)) options = Inr (Str s, opts, fmts)
        \<and> (resolveInputFormat env (Str s) opts = js ''pdf''
             \<or> resolveInputFormat env (Str s) opts = js ''docx'')"
  then show "convert env (Input (Str s)) options =
          (Inl (ValidationError
                 ((if resolveInputFormat env (Str s) opts = js ''pdf'' then js ''PDF'' else js ''DOCX'')
                    @ js '' input must be a Buffer'') (js ''input'')), [])"
    by (auto simp: convert_def parseInput_def js_def)
next
  assume a: "validateInput (Input (Str s)) options = Inr (Str s, opts, fmts)
        \<and> (resolveInputFormat env (Str s) opts = js ''pdf''
             \<or> resolveInputFormat env (Str s) opts = js ''docx'')"
  then show "inputFormat opts = Some (resolveInputFormat env (Str s) opts)"
    using resolve_string_declared by blast
qed

theorem binary_format_needs_buffer_witness:
  "convert sampleCollaborators (Input (Str (js ''not a buffer'')))
     (Some \<lparr> format = Some [js ''md''], inputFormat = Some (js ''pdf''), templateId = None,
             metadata = MetadataUndefined \<rparr>) =
     (Inl (ValidationError (js ''PDF input must be a Buffer'') (js ''input'')), [])"
  using binary_format_needs_buffer
    [where env = sampleCollaborators and s = "js ''not a buffer''"
       and options = "Some \<lparr> format = Some [js ''md''], inputFormat = Some (js ''pdf''),
             templateId = None, metadata = MetadataUndefined \<rparr>"
       and opts = "\<lparr> format = Some [js ''md''], inputFormat = Some (js ''pdf''),
             templateId = None, metadata = MetadataUndefined \<rparr>"
       and fmts = "[js ''md'']"]
  by (simp add: validateInput_def resolveInputFormat_def VALID_FORMATS_def VALID_INPUT_FORMATS_def js_def)

lemma rejections_member:
  "f \<in> set fmts \<Longrightarrow> g f = (Inl e, ev) \<Longrightarrow> e \<in> set (rejections (map (\<lambda>f. (f, g f)) fmts))"
proof (induction fmts)
  case Nil
  then show ?case by simp
next
  case (Cons a fmts)
  have step: "rejections (map (\<lambda>f. (f, g f)) (a # fmts)) =
      (case fst (g a) of Inl e' \<Rightarrow> [e'] | Inr out \<Rightarrow> []) @ rejections (map (\<lambda>f. (f, g f)) fmts)"
    by (cases "g a") (auto simp: rejections_def split: sum.splits)
  show ?case
  proof (cases "f = a")
    case True
    with Cons.prems(2) step show ?thesis by simp
  next
    case False
    with Cons have "e \<in> set (rejections (map (\<lambda>f. (f, g f)) fmts))" by simp
    with step show ?thesis by simp
  qed
qed

lemma rejections_nonempty:
  assumes "f \<in> set fmts" "isl (fst (g f))"
  shows "rejections (map (\<lambda>f. (f, g f)) fmts) \<noteq> []"
proof -
  from assms(2) obtain e ev where "g f = (Inl e, ev)"
    by (cases "g f") (auto simp: isl_def)
  with assms(1) have "e \<in> set (rejections (map (\<lambda>f. (f, g f)) fmts))"
    by (rule rejections_member)
  then show ?thesis by auto
qed

lemma convert_rejects:
  assumes "validateInput arg options = Inr (inp, opts, fmts)"
    "fst (parseInput env inp (resolveInputFormat env inp opts)) = Inr ast"
    "f \<in> set fmts" "isl (fst (convertToFormat env ast f opts))"
  shows "\<exists>e. fst (convert env arg options) = Inl e
           \<and> e \<in> set (rejections (map (\<lambda>f. (f, convertToFormat env ast f opts)) fmts))"
proof -
  let ?rs = "rejections (map (\<lambda>f. (f, convertToFormat env ast f opts)) fmts)"
  have ne: "?rs \<noteq> []"
    using rejections_nonempty [of f fmts "\<lambda>f. convertToFormat env ast f opts"] assms(3,4) by simp
  obtain ev where p: "parseInput env inp (resolveInputFormat env inp opts) = (Inr ast, ev)"
    using assms(2) by (cases "parseInput env inp (resolveInputFormat env inp opts)") auto
  have "fst (convert env arg options) = Inl (?rs ! (firstRejected env ?rs mod length ?rs))"
    using assms(1) p ne by (simp add: convert_def Let_def)
  moreover have "?rs ! (firstRejected env ?rs mod length ?rs) \<in> set ?rs"
    using ne by (intro nth_mem) simp
  ultimately show ?thesis by blast
qed

text \<open>
  C2, as the claim states it, fails in its last part: when the value thrown inside a
  renderer is not an \<open>Error\<close> object, the ConversionError that reaches the caller has no
  cause.
\<close>

theorem conversion_error_cause_counterexample:
  "fst (convert (sampleCollaborators\<lparr> htmlBody := (\<lambda>ast ro. Inl NonError) \<rparr>)
          (Input (Str (js ''# Title'')))
          (Some \<lparr> format = Some [js ''html''], inputFormat = None, templateId = None,
                  metadata = MetadataUndefined \<rparr>))
     = Inl (ConversionError (js ''Failed to render HTML: Unknown error'') (js ''html'') None)"
  by (simp add: convert_eval_defs js_def detectStringFormat_def trim_def startsWith_def
      isWhiteSpace_def)

text \<open>
  C2, amended. When the call passes validation, the input is parsed and the conversion to
  at least one requested format fails, \<open>convert\<close> returns no result map: it raises the
  failure of one of the failed conversions (the first to reject). A renderer that is called
  passes its outcome to the conversion, and every failure inside a renderer is raised as a
  ConversionError with the message \<open>Failed to render X: \<close> and the thrown error's message,
  the target format name, and as cause the thrown value when it is an \<open>Error\<close> object; a
  thrown value that is no \<open>Error\<close> object gives the message \<open>Unknown error\<close> and no cause.
\<close>

theorem render_failure_aborts_convert:
  "(validateInput arg options = Inr (inp, opts, fmts)
      \<and> fst (parseInput env inp (resolveInputFormat env inp opts)) = Inr ast
      \<and> f \<in> set fmts \<and> isl (fst (convertToFormat env ast f opts)) \<longrightarrow>
      (\<exists>e. fst (convert env arg options) = Inl e
           \<and> e \<in> set (rejections (map (\<lambda>f. (f, convertToFormat env ast f opts)) fmts))))
   \<and> fst (convertToFormat env ast (js ''md'') opts) =
        map_sum id StringOutput
          (renderMarkdown env ast \<lparr> renderMetadata = metadata opts, renderTemplate = None \<rparr>)
   \<and> (getTemplateForRendering env (templateId opts) (js ''html'') = Inr tpl \<longrightarrow>
        fst (convertToFormat env ast (js ''html'') opts) =
          map_sum id StringOutput
            (renderHtml env ast \<lparr> renderMetadata = metadata opts, renderTemplate = tpl \<rparr>))
   \<and> (getTemplateForRendering env (templateId opts) (js ''pdf'') = Inr tpl \<longrightarrow>
        fst (convertToFormat env ast (js ''pdf'') opts) =
          map_sum id BufferOutput
            (renderPdf env ast \<lparr> renderMetadata = metadata opts, renderTemplate = tpl \<rparr>))
   \<and> (getTemplateForRendering env (templateId opts) (js ''docx'') = Inr tpl \<longrightarrow>
        fst (convertToFormat env ast (js ''docx'') opts) =
          map_sum id BufferOutput
            (renderDocx env ast \<lparr> renderMetadata = metadata opts, renderTemplate = tpl \<rparr>))
   \<and> (markdownBody env ast ro = Inl t \<longrightarrow>
        renderMarkdown env ast ro =
          Inl (ConversionError
                (js ''Failed to render Markdown: '' @ (case t of ErrorObject m \<Rightarrow> m | NonError \<Rightarrow> js ''Unknown error''))
                (js ''md'') (case t of ErrorObject m \<Rightarrow> Some t | NonError \<Rightarrow> None)))
   \<and> (htmlBody env ast ro = Inl t \<longrightarrow>
        renderHtml env ast ro =
          Inl (ConversionError
                (js ''Failed to render HTML: '' @ (case t of ErrorObject m \<Rightarrow> m | NonError \<Rightarrow> js ''Unknown error''))
                (js ''html'') (case t of ErrorObject m \<Rightarrow> Some t | NonError \<Rightarrow> None)))
   \<and> (pdfBody env ast ro = Inl t \<longrightarrow>
        renderPdf env ast ro =
          Inl (ConversionError
                (js ''Failed to render PDF: '' @ (case t of ErrorObject m \<Rightarrow> m | NonError \<Rightarrow> js ''Unknown error''))
                (js ''pdf'') (case t of ErrorObject m \<Rightarrow> Some t | NonError \<Rightarrow> None)))
   \<and> (docxBody env ast ro = Inl t \<longrightarrow>
        renderDocx env ast ro =
          Inl (ConversionError
                (js ''Failed to render DOCX: '' @ (case t of ErrorObject m \<Rightarrow> m | NonError \<Rightarrow> js ''Unknown error''))
                (js ''docx'') (case t of ErrorObject m \<Rightarrow> Some t | NonError \<Rightarrow> None)))"
proof (intro conjI impI)
  assume "validateInput arg options = Inr (inp, opts, fmts)
      \<and> fst (parseInput env inp (resolveInputFormat env inp opts)) = Inr ast
      \<and> f \<in> set fmts \<and> isl (fst (convertToFormat env ast f opts))"
  then show "\<exists>e. fst (convert env arg options) = Inl e
           \<and> e \<in> set (rejections (map (\<lambda>f. (f, convertToFormat env ast f opts)) fmts))"
    using convert_rejects by blast
next
  show "fst (convertToFormat env ast (js ''md'') opts) =
        map_sum id StringOutput
          (renderMarkdown env ast \<lparr> renderMetadata = metadata opts, renderTemplate = None \<rparr>)"
    by (simp add: convertToFormat_def)
next
  assume "getTemplateForRendering env (templateId opts) (js ''html'') = Inr tpl"
  then show "fst (convertToFormat env ast (js ''html'') opts) =
          map_sum id StringOutput
            (renderHtml env ast \<lparr> renderMetadata = metadata opts, renderTemplate = tpl \<rparr>)"
    by (simp add: convertToFormat_def js_def)
next
  assume "getTemplateForRendering env (templateId opts) (js ''pdf'') = Inr tpl"
  then show "fst (convertToFormat env ast (js ''pdf'') opts) =
          map_sum id BufferOutput
            (renderPdf env ast \<lparr> renderMetadata = metadata opts, renderTemplate = tpl \<rparr>)"
    by (simp add: convertToFormat_def js_def)
next
  assume "getTemplateForRendering env (templateId opts) (js ''docx'') = Inr tpl"
  then show "fst (convertToFormat env ast (js ''docx'') opts) =
          map_sum id BufferOutput
            (renderDocx env ast \<lparr> renderMetadata = metadata opts, renderTemplate = tpl \<rparr>)"
    by (simp add: convertToFormat_def js_def)
next
  assume "markdownBody env ast ro = Inl t"
  then show "renderMarkdown env ast ro =
          Inl (ConversionError
                (js ''Failed to render Markdown: '' @ (case t of ErrorObject m \<Rightarrow> m | NonError \<Rightarrow> js ''Unknown error''))
                (js ''md'') (case t of ErrorObject m \<Rightarrow> Some t | NonError \<Rightarrow> None))"
    by (simp add: renderMarkdown_def conversionError_def)
next
  assume "htmlBody env ast ro = Inl t"
  then show "renderHtml env ast ro =
          Inl (ConversionError
                (js ''Failed to render HTML: '' @ (case t of ErrorObject m \<Rightarrow> m | NonError \<Rightarrow> js ''Unknown error''))
                (js ''html'') (case t of ErrorObject m \<Rightarrow> Some t | NonError \<Rightarrow> None))"
    by (simp add: renderHtml_def conversionError_def)
next
  assume "pdfBody env ast ro = Inl t"
  then show "renderPdf env ast ro =
          Inl (ConversionError
                (js ''Failed to render PDF: '' @ (case t of ErrorObject m \<Rightarrow> m | NonError \<Rightarrow> js ''Unknown error''))
                (js ''pdf'') (case t of ErrorObject m \<Rightarrow> Some t | NonError \<Rightarrow> None))"
    by (simp add: renderPdf_def conversionError_def)
next
  assume "docxBody env ast ro = Inl t"
  then show "renderDocx env ast ro =
          Inl (ConversionError
                (js ''Failed to render DOCX: '' @ (case t of ErrorObject m \<Rightarrow> m | NonError \<Rightarrow> js ''Unknown error''))
                (js ''docx'') (case t of ErrorObject m \<Rightarrow> Some t | NonError \<Rightarrow> None))"
    by (simp add: renderDocx_def conversionError_def)
qed

theorem render_failure_aborts_convert_witness:
  "fst (convert (sampleCollaborators\<lparr> pdfBody := (\<lambda>ast ro. Inl (ErrorObject (js ''disk full''))) \<rparr>)
          (Input (Str (js ''# Title'')))
          (Some \<lparr> format = Some [js ''md'', js ''pdf''], inputFormat = None, templateId = None,
                  metadata = MetadataUndefined \<rparr>))
     = Inl (ConversionError (js ''Failed to render PDF: disk full'') (js ''pdf'')
             (Some (ErrorObject (js ''disk full''))))"
  using render_failure_aborts_convert
    [where env = "sampleCollaborators\<lparr> pdfBody := (\<lambda>ast ro. Inl (ErrorObject (js ''disk full''))) \<rparr>"
       and arg = "Input (Str (js ''# Title''))"
       and options = "Some \<lparr> format = Some [js ''md'', js ''pdf''], inputFormat = None,
             templateId = None, metadata = MetadataUndefined \<rparr>"
       and inp = "Str (js ''# Title'')"
       and opts = "\<lparr> format = Some [js ''md'', js ''pdf''], inputFormat = None,
             templateId = None, metadata = MetadataUndefined \<rparr>"
       and fmts = "[js ''md'', js ''pdf'']" and f = "js ''pdf''" and ast = "Root []"
       and ro = "\<lparr> renderMetadata = MetadataUndefined, renderTemplate = None \<rparr>"
       and t = "ErrorObject (js ''disk full'')" and tpl = None]
  by (simp add: convert_eval_defs js_def detectStringFormat_def trim_def startsWith_def
      isWhiteSpace_def)

section \<open>Properties of the HTML renderer\<close>

lemma indexOf_skip:
  "x \<notin> set a \<Longrightarrow> indexOf (a @ s) (x # q) = map_option (\<lambda>i. length a + i) (indexOf s (x # q))"
proof (induction a)
  case Nil
  show ?case by (simp add: option.map_ident)
next
  case (Cons c a)
  then have "\<not> startsWith (c # a @ s) (x # q)" by (auto simp: startsWith_def)
  with Cons show ?case by (simp add: option.map_comp comp_def)
qed

lemma indexOf_first:
  assumes "indexOf (a @ butlast p) p = None" "p \<noteq> []"
  shows "indexOf (a @ p @ b) p = Some (length a)"
  using assms
proof (induction a)
  case Nil
  then show ?case by (cases p) (simp_all add: startsWith_def)
next
  case (Cons c a)
  from Cons.prems have n: "\<not> startsWith (c # a @ butlast p) p" and r: "indexOf (a @ butlast p) p = None"
    by (auto split: if_splits)
  have "take (length p) (c # a @ p @ b) = take (length p) (c # a @ butlast p)"
  proof -
    have "c # a @ p @ b = (c # a @ butlast p) @ (last p # b)"
      using \<open>p \<noteq> []\<close> by simp
    moreover have "length p \<le> length (c # a @ butlast p)" by simp
    ultimately show ?thesis by (metis append_Nil2 diff_is_0_eq take0 take_append)
  qed
  with n have "\<not> startsWith (c # a @ p @ b) p" by (simp add: startsWith_def)
  with Cons.IH [OF r \<open>p \<noteq> []\<close>] show ?case by simp
qed

lemma replaceString_first:
  assumes "indexOf (a @ butlast p) p = None" "p \<noteq> []"
  shows "replaceString (a @ p @ b) p r = a @ getSubstitution p a b r @ b"
  using indexOf_first [OF assms, of b] by (simp add: replaceString_def)

lemma getSubstitution_plain: "36 \<notin> set r \<Longrightarrow> getSubstitution m a b r = r"
  by (induction m a b r rule: getSubstitution.induct) auto

lemma indexOf_Cons:
  "indexOf (c # s) (x # q) =
     (if c = x then (if startsWith s q then Some 0 else map_option Suc (indexOf s (x # q)))
      else map_option Suc (indexOf s (x # q)))"
  by (simp add: startsWith_def)

lemma DEFAULT_STYLES_plain: "36 \<notin> set DEFAULT_STYLES"
  by (simp add: DEFAULT_STYLES_def js_def)

lemma includesString_middle: "includesString (a @ sub @ b) sub"
  unfolding includesString_def list_ex_iff
  by (rule bexI [of _ "length a"]) simp_all

text \<open>
  C9. The renderer escapes the text of every node it writes, and then puts the escaped
  content into the template with \<open>template.replace('{{CONTENT}}', content)\<close>. There the
  content is a replacement text, in which \<open>$`\<close> stands for the part of the template before
  the placeholder. For the tree of one paragraph whose text is \<open><$`\<close>, \<open>astToHtml\<close> gives
  \<open><p>&lt;$`</p>\<close>, and \<open>renderHtml\<close> with the default template and no metadata returns the
  document below: the paragraph holds \<open>&lt;\<close> and then the head of the template as it
  stands, from \<open><!DOCTYPE html>\<close> to the opening \<open>article\<close> tag, with its \<open><\<close> and \<open>>\<close>
  not escaped.
\<close>

theorem renderHtml_dollar_pattern_in_text:
  "astToHtml (Root [Paragraph [Text (js ''<$`'')]]) = js ''<p>&lt;$`</p>''
   \<and> renderHtml (htmlRenderer sampleCollaborators) (Root [Paragraph [Text (js ''<$`'')]])
         \<lparr> renderMetadata = MetadataUndefined, renderTemplate = None \<rparr> =
       Inr (joinWith [10]
          [js ''<!DOCTYPE html>'',
           js ''<html lang='' @ [34] @ js ''en'' @ [34] @ js ''>'',
           js ''<head>'',
           js ''  <meta charset='' @ [34] @ js ''UTF-8'' @ [34] @ js ''>'',
           js ''  <meta name='' @ [34] @ js ''viewport'' @ [34]
             @ js '' content='' @ [34] @ js ''width=device-width, initial-scale=1.0'' @ [34] @ js ''>'',
           js ''  '',
           js ''  <title>Document</title>'',
           js ''  <style>'',
           js ''    '' @ DEFAULT_STYLES,
           js ''  </style>'',
           js ''</head>'',
           js ''<body>'',
           js ''  <article class='' @ [34] @ js ''markdown-body'' @ [34] @ js ''>'',
           js ''    <p>&lt;<!DOCTYPE html>'',
           js ''<html lang='' @ [34] @ js ''en'' @ [34] @ js ''>'',
           js ''<head>'',
           js ''  <meta charset='' @ [34] @ js ''UTF-8'' @ [34] @ js ''>'',
           js ''  <meta name='' @ [34] @ js ''viewport'' @ [34]
             @ js '' content='' @ [34] @ js ''width=device-width, initial-scale=1.0'' @ [34] @ js ''>'',
           js ''  {{META}}'',
           js ''  <title>{{TITLE}}</title>'',
           js ''  <style>'',
           js ''    {{STYLES}}'',
           js ''  </style>'',
           js ''</head>'',
           js ''<body>'',
           js ''  <article class='' @ [34] @ js ''markdown-body'' @ [34] @ js ''>'',
           js ''    </p>'',
           js ''  </article>'',
           js ''</body>'',
           js ''</html>''])
   \<and> (case renderHtml (htmlRenderer sampleCollaborators) (Root [Paragraph [Text (js ''<$`'')]])
              \<lparr> renderMetadata = MetadataUndefined, renderTemplate = None \<rparr> of
         Inr out \<Rightarrow> includesString out (js ''<p>&lt;<!DOCTYPE html>'')
       | Inl e \<Rightarrow> False)"
proof -
  define dt where "dt = js ''<!DOCTYPE html>''"
  define A' where "A' = joinWith [10]
       [[],
        js ''<html lang='' @ [34] @ js ''en'' @ [34] @ js ''>'',
        js ''<head>'',
        js ''  <meta charset='' @ [34] @ js ''UTF-8'' @ [34] @ js ''>'',
        js ''  <meta name='' @ [34] @ js ''viewport'' @ [34] @ js '' content='' @ [34]
          @ js ''width=device-width, initial-scale=1.0'' @ [34] @ js ''>'',
        js ''  '']"
  define A where "A = dt @ A'"
  define B where "B = [10] @ js ''  <title>''"
  define C where "C = js ''</title>'' @ [10] @ js ''  <style>'' @ [10] @ js ''    ''"
  define D where "D = joinWith [10]
       [[], js ''  </style>'', js ''</head>'', js ''<body>'',
        js ''  <article class='' @ [34] @ js ''markdown-body'' @ [34] @ js ''>'',
        js ''    '']"
  define E where "E = joinWith [10] [[], js ''  </article>'', js ''</body>'', js ''</html>'']"
  define pM where "pM = js ''{{META}}''"
  define pT where "pT = js ''{{TITLE}}''"
  define pS where "pS = js ''{{STYLES}}''"
  define pC where "pC = js ''{{CONTENT}}''"
  define doc where "doc = js ''Document''"
  define before where "before = A @ pM @ B @ pT @ C @ pS @ D"
  define body where "body = js ''<p>&lt;'' @ before @ js ''</p>''"
  define content where "content = js ''<p>&lt;$`</p>''"
  note pats = pM_def pT_def pS_def pC_def
  note parts = A_def A'_def dt_def B_def C_def D_def E_def
  note skip = indexOf_skip indexOf_Cons startsWith_def
  have tpl: "DEFAULT_TEMPLATE = A @ pM @ B @ pT @ C @ pS @ D @ pC @ E"
    by (simp add: DEFAULT_TEMPLATE_def parts pats js_def)
  have nA: "123 \<notin> set A" by (simp add: parts js_def)
  have nB: "123 \<notin> set B" by (simp add: B_def js_def)
  have nC: "123 \<notin> set C" by (simp add: C_def js_def)
  have nD: "123 \<notin> set D" by (simp add: D_def js_def)
  have nDoc: "123 \<notin> set doc" "36 \<notin> set doc" by (simp_all add: doc_def js_def)
  have ne: "pM \<noteq> []" "pT \<noteq> []" "pS \<noteq> []" "pC \<noteq> []" by (simp_all add: pats js_def)
  have s1: "indexOf ((A @ pM @ B @ pT @ C @ pS @ D) @ butlast pC) pC = None"
    using nA nB nC nD by (simp add: pats js_def skip del: indexOf.simps(2))
  have s2: "indexOf ((A @ pM @ B) @ butlast pT) pT = None"
    using nA nB by (simp add: pats js_def skip del: indexOf.simps(2))
  have s3: "indexOf ((A @ pM @ B @ doc @ C) @ butlast pS) pS = None"
    using nA nB nC nDoc(1) by (simp add: pats js_def skip del: indexOf.simps(2))
  have s4: "indexOf (A @ butlast pM) pM = None"
    using nA by (simp add: pats js_def skip del: indexOf.simps(2))
  have g: "getSubstitution pC before E content = body"
    by (simp add: body_def content_def js_def)
  have r1: "replaceString DEFAULT_TEMPLATE pC content = A @ pM @ B @ pT @ C @ pS @ D @ body @ E"
    using replaceString_first [OF s1 ne(4), of E content] g by (simp add: tpl before_def)
  have r2: "replaceString (A @ pM @ B @ pT @ C @ pS @ D @ body @ E) pT doc =
      A @ pM @ B @ doc @ C @ pS @ D @ body @ E"
    using replaceString_first [OF s2 ne(2), of "C @ pS @ D @ body @ E" doc]
    by (simp add: getSubstitution_plain [OF nDoc(2)])
  have r3: "replaceString (A @ pM @ B @ doc @ C @ pS @ D @ body @ E) pS DEFAULT_STYLES =
      A @ pM @ B @ doc @ C @ DEFAULT_STYLES @ D @ body @ E"
    using replaceString_first [OF s3 ne(3), of "D @ body @ E" DEFAULT_STYLES]
    by (simp add: getSubstitution_plain [OF DEFAULT_STYLES_plain])
  have r4: "replaceString (A @ pM @ B @ doc @ C @ DEFAULT_STYLES @ D @ body @ E) pM [] =
      A @ B @ doc @ C @ DEFAULT_STYLES @ D @ body @ E"
    using replaceString_first [OF s4 ne(1), of "B @ doc @ C @ DEFAULT_STYLES @ D @ body @ E" "[]"]
    by simp
  have e: "escapeHtml doc = doc" by (simp add: doc_def escapeHtml_def replaceAll_def js_def)
  have ast: "astToHtml (Root [Paragraph [Text (js ''<$`'')]]) = content"
    by (simp add: content_def astToHtml_def escapeHtml_def replaceAll_def js_def
        List.map_filter_def)
  have applied: "applyTemplate DEFAULT_TEMPLATE content MetadataUndefined =
      A @ B @ doc @ C @ DEFAULT_STYLES @ D @ body @ E"
    unfolding applyTemplate_def Let_def
    by (simp add: stringField_def arrayField_def generateMetaTags_def r1 r2 r3 r4 e
        pM_def [symmetric] pT_def [symmetric] pS_def [symmetric] pC_def [symmetric]
        doc_def [symmetric])
  have out: "renderHtml (htmlRenderer sampleCollaborators) (Root [Paragraph [Text (js ''<$`'')]])
        \<lparr> renderMetadata = MetadataUndefined, renderTemplate = None \<rparr> =
      Inr (A @ B @ doc @ C @ DEFAULT_STYLES @ D @ body @ E)"
    by (simp add: renderHtml_def htmlRenderer_def renderHtmlBody_def ast applied)
  have lines: "A @ B @ doc @ C @ DEFAULT_STYLES @ D @ body @ E =
      joinWith [10]
       [js ''<!DOCTYPE html>'',
        js ''<html lang='' @ [34] @ js ''en'' @ [34] @ js ''>'',
        js ''<head>'',
        js ''  <meta charset='' @ [34] @ js ''UTF-8'' @ [34] @ js ''>'',
        js ''  <meta name='' @ [34] @ js ''viewport'' @ [34]
          @ js '' content='' @ [34] @ js ''width=device-width, initial-scale=1.0'' @ [34] @ js ''>'',
        js ''  '',
        js ''  <title>Document</title>'',
        js ''  <style>'',
        js ''    '' @ DEFAULT_STYLES,
        js ''  </style>'',
        js ''</head>'',
        js ''<body>'',
        js ''  <article class='' @ [34] @ js ''markdown-body'' @ [34] @ js ''>'',
        js ''    <p>&lt;<!DOCTYPE html>'',
        js ''<html lang='' @ [34] @ js ''en'' @ [34] @ js ''>'',
        js ''<head>'',
        js ''  <meta charset='' @ [34] @ js ''UTF-8'' @ [34] @ js ''>'',
        js ''  <meta name='' @ [34] @ js ''viewport'' @ [34]
          @ js '' content='' @ [34] @ js ''width=device-width, initial-scale=1.0'' @ [34] @ js ''>'',
        js ''  {{META}}'',
        js ''  <title>{{TITLE}}</title>'',
        js ''  <style>'',
        js ''    {{STYLES}}'',
        js ''  </style>'',
        js ''</head>'',
        js ''<body>'',
        js ''  <article class='' @ [34] @ js ''markdown-body'' @ [34] @ js ''>'',
        js ''    </p>'',
        js ''  </article>'',
        js ''</body>'',
        js ''</html>'']"
    by (simp add: parts body_def before_def doc_def pats js_def)
  have "A @ B @ doc @ C @ DEFAULT_STYLES @ D @ body @ E =
      (A @ B @ doc @ C @ DEFAULT_STYLES @ D) @ js ''<p>&lt;<!DOCTYPE html>''
        @ (A' @ pM @ B @ pT @ C @ pS @ D @ js ''</p>'' @ E)"
    by (simp add: body_def before_def A_def dt_def js_def)
  then have sub: "includesString (A @ B @ doc @ C @ DEFAULT_STYLES @ D @ body @ E)
      (js ''<p>&lt;<!DOCTYPE html>'')"
    by (simp only: includesString_middle)
  show ?thesis using ast out lines sub by (simp add: content_def)
qed

section \<open>Properties of the deep copy\<close>

lemma json_roundtrip:
  "jsonData v \<Longrightarrow> map_option reviveDoc (serializeProperty v) = Some v"
  "jsonDataElements xs \<Longrightarrow> reviveElements (serializeElements xs) = xs"
  "jsonDataMembers kvs \<Longrightarrow> reviveMembers (serializeMembers kvs) = kvs"
proof (induction v and xs and kvs rule: serializeProperty_serializeElements_serializeMembers.induct)
  case (10 x xs)
  then show ?case by (cases "serializeProperty x") auto
next
  case (12 k v kvs)
  then show ?case by (cases "serializeProperty v") auto
qed simp_all

lemma jsonDataElements_all: "jsonDataElements xs \<longleftrightarrow> list_all jsonData xs"
  by (induction xs) simp_all

lemma jsonData_toJs: "jsonData (toJs t)"
  by (induction t rule: toJs.induct)
     (auto simp: jsonDataElements_all list_all_iff split: option.splits)

text \<open>
  C10. For every document tree \<open>cloneAst\<close> returns (without raising) a value equal to its
  input: every node with its type, its attributes and its children in their order. The
  same holds for every JavaScript value that holds no \<open>undefined\<close> and no number that is
  not finite, whatever attributes its objects carry.
\<close>

theorem cloneAst_identity:
  "cloneAst (toJs t) = Some (toJs t) \<and> (jsonData v \<longrightarrow> cloneAst v = Some v)"
  using json_roundtrip(1) [OF jsonData_toJs [of t]] json_roundtrip(1) [of v]
  by (simp add: cloneAst_def)

theorem cloneAst_identity_witness:
  "cloneAst (toJs (Root [Heading 1 [Text (js ''Title'')], ListNode True [ListItem [Paragraph [Text (js ''a'')]]]]))
     = Some (toJs (Root [Heading 1 [Text (js ''Title'')], ListNode True [ListItem [Paragraph [Text (js ''a'')]]]]))
   \<and> cloneAst (JObject [(js ''type'', JString (js ''root'')), (js ''position'', JNull),
                         (js ''children'', JArray [])])
     = Some (JObject [(js ''type'', JString (js ''root'')), (js ''position'', JNull),
                      (js ''children'', JArray [])])"
  using cloneAst_identity
      [of "Root [Heading 1 [Text (js ''Title'')], ListNode True [ListItem [Paragraph [Text (js ''a'')]]]]"
          "JObject [(js ''type'', JString (js ''root'')), (js ''position'', JNull),
                    (js ''children'', JArray [])]"]
  by simp

end
